theory Spec2Isabelle
  imports Main "HOL-Library.AList" "HOL-Library.Sublist"
begin

section \<open>Python values used by \<^verbatim>\<open>tg_ai_bot2.py\<close>\<close>

text \<open>
  A Python \<^verbatim>\<open>str\<close> is a sequence of Unicode code points, and indexing, slicing and
  \<^verbatim>\<open>len\<close> count code points; a file on disk is a sequence of bytes. The two are kept
  apart: text is a list of code points (\<open>nat\<close>), file contents are a list of 8-bit
  characters, and UTF-8 converts between them where the source opens a file with
  \<^verbatim>\<open>encoding="utf-8"\<close>. Text is assumed to consist of Unicode scalar values (what the
  chat platform and the model API deliver), so that encoding never raises.
\<close>

type_synonym pystr = "nat list"
type_synonym bytes = "char list"

definition ascii :: "string \<Rightarrow> pystr" where
  "ascii cs = map of_char cs"

subsection \<open>\<^verbatim>\<open>str\<close> methods\<close>

definition py_isspace :: "nat \<Rightarrow> bool" where
  \<comment> \<open>the characters \<^verbatim>\<open>str.strip()\<close> removes: Unicode white space\<close>
  "py_isspace c =
     ((9 \<le> c \<and> c \<le> 13) \<or> (28 \<le> c \<and> c \<le> 32) \<or> c = 0x85 \<or> c = 0xA0 \<or> c = 0x1680
      \<or> (0x2000 \<le> c \<and> c \<le> 0x200A) \<or> c = 0x2028 \<or> c = 0x2029 \<or> c = 0x202F
      \<or> c = 0x205F \<or> c = 0x3000)"

definition py_lstrip :: "pystr \<Rightarrow> pystr" where
  "py_lstrip s = dropWhile py_isspace s"

definition py_rstrip :: "pystr \<Rightarrow> pystr" where
  "py_rstrip s = rev (dropWhile py_isspace (rev s))"

definition py_strip :: "pystr \<Rightarrow> pystr" where
  "py_strip s = py_rstrip (py_lstrip s)"

definition lower_char :: "nat \<Rightarrow> nat" where
  "lower_char c = (if 65 \<le> c \<and> c \<le> 90 then c + 32 else c)"

definition py_lower :: "pystr \<Rightarrow> pystr" where
  \<comment> \<open>\<^verbatim>\<open>str.lower()\<close> on the letters A-Z; other characters are left as they are (the
      case mapping of letters outside ASCII is not modelled)\<close>
  "py_lower s = map lower_char s"

definition startswith :: "pystr \<Rightarrow> pystr \<Rightarrow> bool" where
  "startswith s p = (take (length p) s = p)"

definition endswith :: "pystr \<Rightarrow> pystr \<Rightarrow> bool" where
  "endswith s p = (length p \<le> length s \<and> drop (length s - length p) s = p)"

text \<open>
  \<^verbatim>\<open>s.replace(old, new)\<close> replaces the non-overlapping occurrences of \<open>old\<close> from left
  to right. The counter is the number of characters of the current match still to be
  skipped. (With an empty \<open>old\<close> Python inserts \<open>new\<close> around every character; the
  source only replaces non-empty literals.)
\<close>

fun replace_from :: "pystr \<Rightarrow> pystr \<Rightarrow> nat \<Rightarrow> pystr \<Rightarrow> pystr" where
  "replace_from old new k [] = []"
| "replace_from old new (Suc k) (c # s) = replace_from old new k s"
| "replace_from old new 0 (c # s) =
     (if startswith (c # s) old
      then new @ replace_from old new (length old - 1) s
      else c # replace_from old new 0 s)"

definition py_replace :: "pystr \<Rightarrow> pystr \<Rightarrow> pystr \<Rightarrow> pystr" where
  "py_replace s old new =
     (if old = [] then new @ concat (map (\<lambda>c. c # new) s) else replace_from old new 0 s)"

definition py_slice_from :: "int \<Rightarrow> 'a list \<Rightarrow> 'a list" where
  \<comment> \<open>\<^verbatim>\<open>xs[i:]\<close>: a negative start counts from the end (and \<^verbatim>\<open>xs[-0:]\<close> is \<^verbatim>\<open>xs[0:]\<close>)\<close>
  "py_slice_from i xs =
     (if i < 0 then drop (nat (int (length xs) + i)) xs else drop (nat i) xs)"

definition py_slice :: "'a list \<Rightarrow> nat \<Rightarrow> nat \<Rightarrow> 'a list" where
  \<comment> \<open>\<^verbatim>\<open>xs[i:j]\<close> for non-negative \<open>i\<close> and \<open>j\<close>\<close>
  "py_slice xs i j = take (j - i) (drop i xs)"

subsection \<open>UTF-8\<close>

definition utf8_encode_char :: "nat \<Rightarrow> nat list" where
  "utf8_encode_char c =
     (if c < 0x80 then [c]
      else if c < 0x800 then [0xC0 + c div 64, 0x80 + c mod 64]
      else if c < 0x10000 then [0xE0 + c div 4096, 0x80 + c div 64 mod 64, 0x80 + c mod 64]
      else [0xF0 + c div 262144 mod 8, 0x80 + c div 4096 mod 64, 0x80 + c div 64 mod 64,
            0x80 + c mod 64])"

definition utf8_encode :: "pystr \<Rightarrow> bytes" where
  "utf8_encode s = map char_of (concat (map utf8_encode_char s))"

definition is_cont :: "nat \<Rightarrow> bool" where
  "is_cont b = (0x80 \<le> b \<and> b < 0xC0)"

text \<open>
  The character at the head of a byte sequence and the number of bytes it takes, or
  \<open>None\<close> where the head starts no well-formed UTF-8 sequence (a stray continuation
  byte, a truncated or overlong form, a surrogate, a value above U+10FFFF).
\<close>

fun utf8_head :: "nat list \<Rightarrow> (nat \<times> nat) option" where
  "utf8_head [] = None"
| "utf8_head (b0 # bs) =
     (if b0 < 0x80 then Some (b0, 1)
      else if 0xC2 \<le> b0 \<and> b0 < 0xE0 then
        (case bs of
           b1 # _ \<Rightarrow> if is_cont b1 then Some ((b0 - 0xC0) * 64 + (b1 - 0x80), 2) else None
         | _ \<Rightarrow> None)
      else if 0xE0 \<le> b0 \<and> b0 < 0xF0 then
        (case bs of
           b1 # b2 # _ \<Rightarrow>
             (let c = (b0 - 0xE0) * 4096 + (b1 - 0x80) * 64 + (b2 - 0x80)
              in if is_cont b1 \<and> is_cont b2 \<and> 0x800 \<le> c \<and> (c < 0xD800 \<or> 0xE000 \<le> c)
                 then Some (c, 3) else None)
         | _ \<Rightarrow> None)
      else if 0xF0 \<le> b0 \<and> b0 < 0xF5 then
        (case bs of
           b1 # b2 # b3 # _ \<Rightarrow>
             (let c = (b0 - 0xF0) * 262144 + (b1 - 0x80) * 4096 + (b2 - 0x80) * 64 + (b3 - 0x80)
              in if is_cont b1 \<and> is_cont b2 \<and> is_cont b3 \<and> 0x10000 \<le> c \<and> c < 0x110000
                 then Some (c, 4) else None)
         | _ \<Rightarrow> None)
      else None)"

text \<open>\<^verbatim>\<open>bytes.decode("utf-8")\<close>: \<open>None\<close> is \<^verbatim>\<open>UnicodeDecodeError\<close>.\<close>

function decode_strict :: "nat list \<Rightarrow> pystr option" where
  "decode_strict [] = Some []"
| "decode_strict (b # bs) =
     (case utf8_head (b # bs) of
        None \<Rightarrow> None
      | Some (c, n) \<Rightarrow> map_option ((#) c) (decode_strict (drop (n - 1) bs)))"
  by pat_completeness auto
termination
  by (relation "measure length") auto

text \<open>
  \<^verbatim>\<open>bytes.decode("utf-8", errors="ignore")\<close>: a byte that starts no well-formed sequence
  is dropped and decoding goes on behind it.
\<close>

function decode_ignore :: "nat list \<Rightarrow> pystr" where
  "decode_ignore [] = []"
| "decode_ignore (b # bs) =
     (case utf8_head (b # bs) of
        None \<Rightarrow> decode_ignore bs
      | Some (c, n) \<Rightarrow> c # decode_ignore (drop (n - 1) bs))"
  by pat_completeness auto
termination
  by (relation "measure length") auto

definition utf8_decode :: "bytes \<Rightarrow> pystr option" where
  "utf8_decode bs = decode_strict (map of_char bs)"

definition utf8_decode_ignore :: "bytes \<Rightarrow> pystr" where
  "utf8_decode_ignore bs = decode_ignore (map of_char bs)"

subsection \<open>Text files\<close>

text \<open>
  Reading a file opened in text mode translates \<^verbatim>\<open>\r\n\<close> and \<^verbatim>\<open>\r\<close> to \<^verbatim>\<open>\n\<close>;
  \<^verbatim>\<open>readlines()\<close> returns the lines with their terminators. Writing to a file opened
  in text mode writes every \<^verbatim>\<open>\n\<close> of the text as \<^verbatim>\<open>os.linesep\<close>: \<^verbatim>\<open>\n\<close> itself on POSIX,
  \<^verbatim>\<open>\r\n\<close> on Windows, the platform the header of \<^verbatim>\<open>tg_ai_bot2.py\<close> names.
\<close>

definition to_linesep :: "pystr \<Rightarrow> pystr \<Rightarrow> pystr" where
  "to_linesep sep s = concat (map (\<lambda>c. if c = 10 then sep else [c]) s)"

fun universal_newlines :: "pystr \<Rightarrow> pystr" where
  "universal_newlines [] = []"
| "universal_newlines [c] = (if c = 13 then [10] else [c])"
| "universal_newlines (c # d # s) =
     (if c = 13 \<and> d = 10 then 10 # universal_newlines s
      else if c = 13 then 10 # universal_newlines (d # s)
      else c # universal_newlines (d # s))"

fun py_readlines :: "pystr \<Rightarrow> pystr list" where
  "py_readlines [] = []"
| "py_readlines (c # s) =
     (if c = 10 then [10] # py_readlines s
      else (case py_readlines s of [] \<Rightarrow> [[c]] | l # ls \<Rightarrow> (c # l) # ls))"

section \<open>Exceptions, the file system and the log\<close>

datatype exn =
    OSError | FileNotFoundError | UnicodeDecodeError | JSONDecodeError
  | IndexError | AttributeError
  | OpenAIError pystr \<comment> \<open>with \<^verbatim>\<open>str(e)\<close>\<close>
  | OtherError pystr \<comment> \<open>any other exception class, with \<^verbatim>\<open>str(e)\<close>\<close>

text \<open>
  The regular files the program can see, keyed by the path string the program uses, in
  directory-listing order; \<open>readonly\<close> lists the paths that cannot be opened for
  writing (\<^verbatim>\<open>open(path, "w")\<close> and \<^verbatim>\<open>open(path, "a")\<close> raise \<^verbatim>\<open>OSError\<close> there).
  Directories are implicit: a file lies in directory \<open>d\<close> when its path is \<open>d\<close>, a
  slash and a name without a slash. Paths are compared as strings. \<open>linesep\<close> is
  \<^verbatim>\<open>os.linesep\<close> of the platform the files live on.
\<close>

type_synonym path = pystr

record filesystem =
  files :: "(path \<times> bytes) list"
  readonly :: "path list"
  linesep :: pystr

definition fs_read :: "filesystem \<Rightarrow> path \<Rightarrow> bytes option" where
  "fs_read fs p = map_of (files fs) p"

definition fs_exists :: "filesystem \<Rightarrow> path \<Rightarrow> bool" where
  "fs_exists fs p = (fs_read fs p \<noteq> None)"

definition getsize :: "filesystem \<Rightarrow> path \<Rightarrow> nat" where
  \<comment> \<open>\<^verbatim>\<open>os.path.getsize\<close>; the source calls it on listed or existing files only\<close>
  "getsize fs p = (case fs_read fs p of None \<Rightarrow> 0 | Some bs \<Rightarrow> length bs)"

definition fs_write :: "filesystem \<Rightarrow> path \<Rightarrow> bytes \<Rightarrow> exn + filesystem" where
  \<comment> \<open>\<^verbatim>\<open>open(p, "w")\<close> and one write: the file is replaced\<close>
  "fs_write fs p bs =
     (if p \<in> set (readonly fs) then Inl OSError
      else Inr (fs\<lparr>files := AList.update p bs (files fs)\<rparr>))"

definition fs_append :: "filesystem \<Rightarrow> path \<Rightarrow> bytes \<Rightarrow> exn + filesystem" where
  \<comment> \<open>\<^verbatim>\<open>open(p, "a")\<close> and one write\<close>
  "fs_append fs p bs =
     (if p \<in> set (readonly fs) then Inl OSError
      else Inr (fs\<lparr>files := AList.update p
                  ((case fs_read fs p of None \<Rightarrow> [] | Some old \<Rightarrow> old) @ bs) (files fs)\<rparr>))"

definition encode_text :: "filesystem \<Rightarrow> pystr \<Rightarrow> bytes" where
  \<comment> \<open>the bytes \<^verbatim>\<open>f.write(s)\<close> puts into a file opened with \<^verbatim>\<open>encoding="utf-8"\<close>\<close>
  "encode_text fs s = utf8_encode (to_linesep (linesep fs) s)"

definition read_text :: "filesystem \<Rightarrow> path \<Rightarrow> exn + pystr" where
  \<comment> \<open>\<^verbatim>\<open>open(p, "r", encoding="utf-8").read()\<close>\<close>
  "read_text fs p =
     (case fs_read fs p of
        None \<Rightarrow> Inl FileNotFoundError
      | Some bs \<Rightarrow>
          (case utf8_decode bs of
             None \<Rightarrow> Inl UnicodeDecodeError
           | Some s \<Rightarrow> Inr (universal_newlines s)))"

definition dir_prefix :: "path \<Rightarrow> path" where
  "dir_prefix d = (if d = [] then [] else if last d = 47 then d else d @ [47])"

definition path_join :: "path \<Rightarrow> pystr \<Rightarrow> path" where
  \<comment> \<open>\<^verbatim>\<open>os.path.join(d, f)\<close> (POSIX)\<close>
  "path_join d f = (if startswith f [47] then f else dir_prefix d @ f)"

definition entry_name :: "path \<Rightarrow> path \<Rightarrow> pystr option" where
  "entry_name d p =
     (let pre = dir_prefix d; n = drop (length pre) p
      in if take (length pre) p = pre \<and> n \<noteq> [] \<and> 47 \<notin> set n then Some n else None)"

definition listdir :: "filesystem \<Rightarrow> path \<Rightarrow> pystr list" where
  "listdir fs d = List.map_filter (entry_name d) (map fst (files fs))"

text \<open>One constructor for each \<^verbatim>\<open>logger\<close> call of the modelled functions.\<close>

datatype log_entry =
    Info_docs_loading path
  | Debug_skip_non_txt pystr
  | Warning_skip_large pystr
  | Info_doc_loaded pystr
  | Error_doc_failed pystr exn
  | Info_history_created path
  | Info_history_loaded nat nat
  | Error_history_failed exn
  | Info_load_result nat nat
  | Debug_data_saved path
  | Error_save_failed exn path
  | Info_data_restored
  | Error_data_format path
  | Error_data_load exn
  | Info_data_created path
  | Info_bot_username pystr
  | Info_mention_answered pystr
  | Error_mention_openai pystr
  | Error_mention_other exn

section \<open>Configuration\<close>

text \<open>
  \<^verbatim>\<open>CONFIG\<close> is read from \<^verbatim>\<open>config.json\<close>, with \<^verbatim>\<open>default_config\<close> as the fallback;
  the record has the keys the modelled functions read.
\<close>

record config =
  model :: pystr
  max_context_msg :: int
  docs_dir :: path
  chat_history_file :: path
  data_file :: path
  default_system_prompt :: pystr
  error_tip :: pystr
  non_text_tip :: pystr
  no_question_tip :: pystr

definition default_config :: config where
  "default_config = \<lparr>
     model = ascii ''gpt-4o-mini'',
     max_context_msg = 20,
     docs_dir = ascii ''docs'',
     chat_history_file = ascii ''docs/chat_history.txt'',
     data_file = ascii ''tg_single_group_data.json'',
     default_system_prompt =
       [0x4F60, 0x662F, 0x672C, 0x7FA4, 0x7EC4, 0x7684, 0x667A, 0x80FD, 0x52A9, 0x624B,
        0xFF0C, 0x6838, 0x5FC3, 0x89C4, 0x5219, 0xFF1A, 10] @ ascii ''1. '' @ [0x4F18, 0x5148,
        0x4E14, 0x7CBE, 0x51C6, 0x53C2, 0x8003] @ ascii ''docs'' @ [0x6587, 0x4EF6, 0x5939,
        0x4E2D, 0x7684, 0x6240, 0x6709] @ ascii ''txt'' @ [0x6587, 0x4EF6, 0x5185, 0x5BB9,
        0x56DE, 0x7B54, 0x95EE, 0x9898, 0xFF1B, 10] @ ascii ''2. '' @ [0x7ED3, 0x5408, 0x5386,
        0x53F2, 0x5BF9, 0x8BDD, 0x4E0A, 0x4E0B, 0x6587, 0xFF0C, 0x56DE, 0x7B54, 0x5B8C, 0x6574,
        0x3001, 0x51C6, 0x786E, 0xFF0C, 0x4E0D, 0x8981, 0x9057, 0x6F0F, 0x5173, 0x952E, 0x4FE1,
        0x606F, 0xFF1B, 10] @ ascii ''3. '' @ [0x4FDD, 0x6301, 0x53CB, 0x597D, 0x7684, 0x4EA4,
        0x6D41, 0x8BED, 0x6C14, 0xFF0C, 0x8BED, 0x8A00, 0x81EA, 0x7136, 0xFF0C, 0x7B26, 0x5408,
        0x65E5, 0x5E38, 0x804A, 0x5929, 0x4E60, 0x60EF, 0x3002],
     error_tip =
       [0x1F625] @ ascii '' '' @ [0x62B1, 0x6B49, 0xFF0C, 0x5904, 0x7406, 0x4F60, 0x7684,
        0x8BF7, 0x6C42, 0x65F6, 0x51FA, 0x9519, 0x4E86, 0xFF01, 10, 0x53EF, 0x80FD, 0x7684,
        0x539F, 0x56E0, 0xFF1A, 10] @ ascii ''1. '' @ [0x53D1, 0x9001, 0x4E86, 0x975E, 0x6587,
        0x672C, 0x6D88, 0x606F, 0xFF08, 0x5982, 0x56FE, 0x7247, 0x3001, 0x8BED, 0x97F3, 0xFF09]
        @ ascii ''@'' @ [0x6211, 0xFF0C, 0x8BF7, 0x53D1, 0x9001, 0x6587, 0x5B57, 0x95EE,
        0x9898, 0xFF1B, 10] @ ascii ''2. '' @ [0x7F51, 0x7EDC] @ ascii ''/OpenAI API Key'' @
        [0x5F02, 0x5E38, 0xFF0C, 0x8BF7, 0x7A0D, 0x540E, 0x518D, 0x8BD5, 0xFF1B, 10] @ ascii
        ''3. '' @ [0x6587, 0x6863, 0x683C, 0x5F0F, 0x9519, 0x8BEF, 0xFF0C, 0x8BF7, 0x68C0,
        0x67E5, 0x540E, 0x6267, 0x884C] @ ascii ''/reloadall'' @ [0x91CD, 0x65B0, 0x52A0,
        0x8F7D, 0x3002],
     non_text_tip =
       [0x1F645] @ ascii '' '' @ [0x62B1, 0x6B49, 0xFF0C, 0x6211, 0x6682, 0x65F6, 0x53EA,
        0x652F, 0x6301, 0x6587, 0x5B57, 0x6D88, 0x606F, 0x54E6, 0xFF01, 0x8BF7] @ ascii ''@'' @
        [0x6211, 0x5E76, 0x53D1, 0x9001, 0x6587, 0x5B57, 0x95EE, 0x9898, 0xFF0C, 0x6211,
        0x4F1A, 0x5C3D, 0x529B, 0x89E3, 0x7B54, 0x3002],
     no_question_tip =
       ascii ''@'' @ ascii ''{user_name} '' @ [0x4F60] @ ascii ''@'' @ [0x6211, 0x5566, 0xFF0C,
        0x4F46, 0x6CA1, 0x8BF4, 0x5177, 0x4F53, 0x95EE, 0x9898, 0x54E6, 0xFF5E, 0x8BF7, 0x8F93,
        0x5165, 0x60F3, 0x54A8, 0x8BE2, 0x7684, 0x5185, 0x5BB9, 0xFF0C, 0x6211, 0x4F1A, 0x53C2,
        0x8003, 0x6240, 0x6709, 0x6587, 0x6863, 0x5C3D, 0x529B, 0x89E3, 0x7B54, 0xFF01] \<rparr>"

section \<open>Program state\<close>

datatype role = System | User | Assistant

record message =
  role :: role
  content :: pystr

text \<open>The dictionary \<^verbatim>\<open>bot_data\<close>, with the three keys the program gives it.\<close>

record bot_data_dict =
  conversation_context :: "message list"
  knowledge_base :: pystr
  custom_prompt :: pystr

text \<open>
  \<^verbatim>\<open>json.load\<close> returns whatever JSON value the file holds; \<^verbatim>\<open>load_data\<close> assigns it
  to \<^verbatim>\<open>bot_data\<close> without looking at its shape. The values are told apart here: a
  dictionary with the three keys and values of the types \<^verbatim>\<open>save_data\<close> writes, and
  every other JSON value (a list, \<^verbatim>\<open>null\<close>, a dictionary with other keys, ...).
\<close>

datatype json =
    JNull | JBool bool | JNumber int | JString pystr
  | JArray "json list" | JObject "(pystr \<times> json) list"

datatype loaded_value = Dict_state bot_data_dict | Other_value json

text \<open>
  \<^verbatim>\<open>json.dump(bot_data, f, ensure_ascii=False, indent=2)\<close> into a UTF-8 text file, and
  \<^verbatim>\<open>json.load\<close> from one, are library code: they are parameters of the model.
  \<open>json_dump\<close> gives the bytes the file holds after the dump; a load either raises
  (\<^verbatim>\<open>JSONDecodeError\<close>, or another exception such as \<^verbatim>\<open>UnicodeDecodeError\<close>) or returns
  the value read.
\<close>

record json_lib =
  json_dump :: "bot_data_dict \<Rightarrow> bytes"
  json_load :: "bytes \<Rightarrow> exn + loaded_value"

text \<open>The module's globals, the file system and the log.\<close>

record world =
  bot_data :: bot_data_dict
  BOT_USERNAME :: "pystr option"
  fs :: filesystem
  logged :: "log_entry list"

definition log_add :: "log_entry \<Rightarrow> world \<Rightarrow> world" where
  "log_add e w = w\<lparr>logged := logged w @ [e]\<rparr>"

section \<open>Persistence: \<^verbatim>\<open>save_data\<close> and \<^verbatim>\<open>load_data\<close>\<close>

definition save_data :: "config \<Rightarrow> json_lib \<Rightarrow> world \<Rightarrow> world" where
  "save_data cfg lib w =
     (case fs_write (fs w) (data_file cfg) (json_dump lib (bot_data w)) of
        Inr fs' \<Rightarrow> log_add (Debug_data_saved (data_file cfg)) (w\<lparr>fs := fs'\<rparr>)
      | Inl e \<Rightarrow> log_add (Error_save_failed e (data_file cfg)) w)"

definition empty_bot_data :: "config \<Rightarrow> bot_data_dict" where
  "empty_bot_data cfg =
     \<lparr>conversation_context = [], knowledge_base = [],
      custom_prompt = default_system_prompt cfg\<rparr>"

text \<open>
  What \<^verbatim>\<open>load_data\<close> leaves: a state whose \<^verbatim>\<open>bot_data\<close> is a dictionary of the
  program's shape, or \<^verbatim>\<open>bot_data\<close> bound to another JSON value, with the other globals,
  the file system and the log beside it.
\<close>

datatype load_outcome =
    Loaded world
  | Loaded_other json "pystr option" filesystem "log_entry list"

definition load_data :: "config \<Rightarrow> json_lib \<Rightarrow> world \<Rightarrow> load_outcome" where
  "load_data cfg lib w =
     (case fs_read (fs w) (data_file cfg) of
        Some bs \<Rightarrow>
          (case json_load lib bs of
             Inr (Dict_state d) \<Rightarrow> Loaded (log_add Info_data_restored (w\<lparr>bot_data := d\<rparr>))
           | Inr (Other_value j) \<Rightarrow>
               Loaded_other j (BOT_USERNAME w) (fs w) (logged w @ [Info_data_restored])
           | Inl e \<Rightarrow>
               if e = JSONDecodeError
               then Loaded (save_data cfg lib
                      ((log_add (Error_data_format (data_file cfg)) w)
                         \<lparr>bot_data := empty_bot_data cfg\<rparr>))
               else Loaded (save_data cfg lib
                      ((log_add (Error_data_load e) w)\<lparr>bot_data := empty_bot_data cfg\<rparr>)))
      | None \<Rightarrow>
          Loaded (log_add (Info_data_created (data_file cfg))
            (save_data cfg lib (w\<lparr>bot_data := empty_bot_data cfg\<rparr>))))"

section \<open>The corpus loader: \<^verbatim>\<open>load_all_docs\<close>\<close>

definition MAX_SINGLE_FILE_SIZE :: nat where
  "MAX_SINGLE_FILE_SIZE = 10 * 1024 * 1024"

definition doc_header :: "pystr \<Rightarrow> pystr" where
  "doc_header filename =
     [10, 10] @ ascii ''===== '' @ [0x3010, 0x6587, 0x6863, 0xFF1A] @ filename
       @ [0x3011] @ ascii '' ====='' @ [10]"

text \<open>The body of the loop over \<^verbatim>\<open>os.listdir(docs_dir)\<close>, on the state and the file count.\<close>

definition load_doc :: "config \<Rightarrow> pystr \<Rightarrow> world \<times> nat \<Rightarrow> world \<times> nat" where
  "load_doc cfg filename acc =
     (case acc of (w, total_files) \<Rightarrow>
        if \<not> endswith (py_lower filename) (ascii ''.txt'')
        then (log_add (Debug_skip_non_txt filename) w, total_files)
        else
          (let file_path = path_join (docs_dir cfg) filename
           in if getsize (fs w) file_path > MAX_SINGLE_FILE_SIZE
              then (log_add (Warning_skip_large filename) w, total_files)
              else
                (case read_text (fs w) file_path of
                   Inl e \<Rightarrow> (log_add (Error_doc_failed filename e) w, total_files)
                 | Inr text \<Rightarrow>
                     (let content = py_strip text
                      in if content \<noteq> []
                         then (log_add (Info_doc_loaded filename)
                                 (w\<lparr>bot_data := (bot_data w)\<lparr>knowledge_base :=
                                      knowledge_base (bot_data w) @ doc_header filename @ content\<rparr>\<rparr>),
                               total_files + 1)
                         else (log_add (Info_doc_loaded filename) w, total_files)))))"

definition history_header :: pystr where
  "history_header = ascii ''# '' @ [0x7FA4, 0x804A, 0x5BF9, 0x8BDD, 0x5386, 0x53F2, 10, 10]"

definition tag_user :: pystr where
  "tag_user = [0x3010, 0x7528, 0x6237, 0x3011]"

definition tag_assistant :: pystr where
  "tag_assistant = [0x3010, 0x52A9, 0x624B, 0x3011]"

text \<open>
  The loop over the lines of the history file, on \<^verbatim>\<open>user_msg\<close>, \<^verbatim>\<open>assistant_msg\<close> and
  the context built so far.
\<close>

fun parse_history :: "pystr list \<Rightarrow> pystr \<Rightarrow> pystr \<Rightarrow> message list \<Rightarrow> message list" where
  "parse_history [] user_msg assistant_msg ctx = ctx"
| "parse_history (l # ls) user_msg assistant_msg ctx =
     (let line = py_strip l
      in if startswith line tag_user
         then parse_history ls (py_strip (py_replace line tag_user [])) assistant_msg ctx
         else if startswith line tag_assistant
         then (let assistant_msg' = py_strip (py_replace line tag_assistant [])
               in if user_msg \<noteq> [] \<and> assistant_msg' \<noteq> []
                  then parse_history ls [] []
                         (ctx @ [\<lparr>role = User, content = user_msg\<rparr>,
                                 \<lparr>role = Assistant, content = assistant_msg'\<rparr>])
                  else parse_history ls user_msg assistant_msg' ctx)
         else parse_history ls user_msg assistant_msg ctx)"

definition trim_context :: "int \<Rightarrow> message list \<Rightarrow> message list" where
  \<comment> \<open>\<^verbatim>\<open>if len(ctx) > max_context_msg: ctx = ctx[-max_context_msg:]\<close>\<close>
  "trim_context maxlen ctx =
     (if int (length ctx) > maxlen then py_slice_from (- maxlen) ctx else ctx)"

text \<open>
  Step 3 of \<^verbatim>\<open>load_all_docs\<close>. Creating the missing history file is outside any
  \<^verbatim>\<open>try\<close>: where that write fails the exception leaves \<^verbatim>\<open>load_all_docs\<close> (\<open>Inl\<close>).
  The result is the number of turn pairs loaded.
\<close>

definition load_history :: "config \<Rightarrow> world \<Rightarrow> exn + (nat \<times> world)" where
  "load_history cfg w =
     (if \<not> fs_exists (fs w) (chat_history_file cfg)
      then
        (case fs_write (fs w) (chat_history_file cfg) (encode_text (fs w) history_header) of
           Inl e \<Rightarrow> Inl e
         | Inr fs' \<Rightarrow>
             Inr (0, log_add (Info_history_created (chat_history_file cfg)) (w\<lparr>fs := fs'\<rparr>)))
      else
        (case read_text (fs w) (chat_history_file cfg) of
           Inl e \<Rightarrow> Inr (0, log_add (Error_history_failed e) w)
         | Inr text \<Rightarrow>
             (let ctx = trim_context (max_context_msg cfg)
                          (parse_history (py_readlines text) [] [] []);
                  chat_count = length ctx div 2
              in Inr (chat_count,
                      log_add (Info_history_loaded chat_count (length ctx))
                        (w\<lparr>bot_data := (bot_data w)\<lparr>conversation_context := ctx\<rparr>\<rparr>)))))"

text \<open>
  \<^verbatim>\<open>load_all_docs\<close> returns a message built from the two counts (or logs it, without
  \<^verbatim>\<open>notify\<close>); the model returns the counts. The state is returned in every case: an
  exception leaves the globals as they were when it was raised. Directories being
  implicit, \<^verbatim>\<open>os.makedirs(docs_dir, exist_ok=True)\<close> changes nothing here.
\<close>

definition load_all_docs ::
  "config \<Rightarrow> json_lib \<Rightarrow> bool \<Rightarrow> world \<Rightarrow> (exn + (nat \<times> nat) option) \<times> world" where
  "load_all_docs cfg lib notify w =
     (let w0 = log_add (Info_docs_loading (docs_dir cfg))
                 (w\<lparr>bot_data := (bot_data w)\<lparr>knowledge_base := []\<rparr>\<rparr>)
      in case foldl (\<lambda>acc filename. load_doc cfg filename acc) (w0, 0)
                (listdir (fs w0) (docs_dir cfg)) of
           (w1, total_files) \<Rightarrow>
             (case load_history cfg w1 of
                Inl e \<Rightarrow> (Inl e, w1)
              | Inr (chat_count, w2) \<Rightarrow>
                  (let w3 = save_data cfg lib w2
                   in if notify then (Inr (Some (total_files, chat_count)), w3)
                      else (Inr None, log_add (Info_load_result total_files chat_count) w3))))"

section \<open>The message handler: \<^verbatim>\<open>handle_mention\<close>\<close>

record message_entity =
  entity_type :: pystr
  entity_offset :: nat
  entity_length :: nat

text \<open>
  What the handler reads of the update: \<^verbatim>\<open>message.text\<close> (\<open>None\<close> without a message
  or a text), \<^verbatim>\<open>message.entities\<close> and \<^verbatim>\<open>effective_user.first_name\<close>.
\<close>

record update =
  message_text :: "pystr option"
  entities :: "message_entity list"
  first_name :: "pystr option"

text \<open>
  The model API answers with the \<^verbatim>\<open>message.content\<close> of its choices (\<open>None\<close> for a
  null content) or raises.
\<close>

datatype api_result = Response "pystr option list" | Raises exn

text \<open>
  The collaborators: the bot's own user name (\<^verbatim>\<open>context.bot.get_me().username\<close>) and
  the API client (\<open>None\<close> without an API key), called with the model name and the
  messages. Sending a reply is assumed to succeed.
\<close>

record bot_env =
  get_me_username :: pystr
  client :: "(pystr \<Rightarrow> message list \<Rightarrow> api_result) option"

text \<open>
  Step 3: the loop over \<^verbatim>\<open>message.entities\<close>, on \<^verbatim>\<open>is_mention_me\<close> and
  \<^verbatim>\<open>user_question\<close>; the first match ends it (\<^verbatim>\<open>break\<close>).
\<close>

fun scan_entities ::
  "pystr \<Rightarrow> pystr \<Rightarrow> message_entity list \<Rightarrow> bool \<times> pystr \<Rightarrow> bool \<times> pystr" where
  "scan_entities text handle [] st = st"
| "scan_entities text handle (e # es) st =
     (if entity_type e = ascii ''mention''
      then
        (let mention_text =
               py_lower (py_slice text (entity_offset e) (entity_offset e + entity_length e))
         in if py_replace mention_text (ascii ''@'') [] = handle
            then (True,
                  py_strip (take (entity_offset e) text
                            @ drop (entity_offset e + entity_length e) text))
            else scan_entities text handle es st)
      else scan_entities text handle es st)"

definition parse_mention :: "pystr \<Rightarrow> message_entity list \<Rightarrow> pystr \<Rightarrow> bool \<times> pystr" where
  "parse_mention text ents handle = scan_entities text handle ents (False, py_strip text)"

definition build_messages :: "bot_data_dict \<Rightarrow> pystr \<Rightarrow> message list" where
  "build_messages d user_question =
     (let system_msg =
            custom_prompt d
            @ (if knowledge_base d \<noteq> []
               then [10, 10] @ ascii ''===== '' @ [0x3010, 0x6240, 0x6709, 0x53C2, 0x8003,
                      0x6587, 0x6863, 0x3011] @ ascii '' ====='' @ [10] @ knowledge_base d
               else [])
      in [\<lparr>role = System, content = system_msg\<rparr>] @ conversation_context d
         @ [\<lparr>role = User, content = user_question\<rparr>])"

definition response_content :: "pystr option list \<Rightarrow> exn + pystr" where
  \<comment> \<open>\<^verbatim>\<open>response.choices[0].message.content.strip()\<close>\<close>
  "response_content choices =
     (case choices of
        [] \<Rightarrow> Inl IndexError
      | None # _ \<Rightarrow> Inl AttributeError
      | Some c # _ \<Rightarrow> Inr (py_strip c))"

definition call_model ::
  "(pystr \<Rightarrow> message list \<Rightarrow> api_result) \<Rightarrow> pystr \<Rightarrow> message list \<Rightarrow> exn + pystr" where
  \<comment> \<open>step 5: the API call and the reply taken from its response\<close>
  "call_model create m msgs =
     (case create m msgs of
        Raises e \<Rightarrow> Inl e
      | Response choices \<Rightarrow> response_content choices)"

text \<open>
  Step 6: the question and the reply are appended to the context, then only the last
  \<^verbatim>\<open>max_context_msg\<close> entries are kept.
\<close>

definition update_context :: "int \<Rightarrow> pystr \<Rightarrow> pystr \<Rightarrow> message list \<Rightarrow> message list" where
  "update_context maxlen user_question ai_reply ctx =
     (let ctx1 = ctx @ [\<lparr>role = User, content = user_question\<rparr>];
          ctx2 = ctx1 @ [\<lparr>role = Assistant, content = ai_reply\<rparr>]
      in if int (length ctx2) > maxlen then py_slice_from (- maxlen) ctx2 else ctx2)"

text \<open>Step 7: the history file is cut back when it has grown too large, then appended to.\<close>

definition MAX_CHAT_FILE_SIZE :: nat where
  "MAX_CHAT_FILE_SIZE = 100 * 1024 * 1024"

definition TRIM_TO_SIZE :: nat where
  "TRIM_TO_SIZE = 50 * 1024 * 1024"

definition rotation_marker :: pystr where
  "rotation_marker =
     ascii ''# '' @ [0x7FA4, 0x804A, 0x5BF9, 0x8BDD, 0x5386, 0x53F2, 0xFF08, 0x81EA, 0x52A8,
       0x622A, 0x65AD, 0xFF0C, 0x4EC5, 0x4FDD, 0x7559, 0x6700, 0x540E] @ ascii ''50MB'' @
       [0xFF09, 10, 10]"

definition history_record :: "pystr \<Rightarrow> pystr \<Rightarrow> pystr" where
  "history_record user_question ai_reply =
     tag_user @ user_question @ [10] @ tag_assistant @ ai_reply @ [10, 10]"

definition rotate_history :: "path \<Rightarrow> filesystem \<Rightarrow> exn + filesystem" where
  "rotate_history p fsys =
     (case fs_read fsys p of
        None \<Rightarrow> Inr fsys
      | Some bs \<Rightarrow>
          if length bs > MAX_CHAT_FILE_SIZE
          then (let content = utf8_decode_ignore (drop (length bs - TRIM_TO_SIZE) bs)
                in fs_write fsys p (encode_text fsys (rotation_marker @ content)))
          else Inr fsys)"

definition history_append :: "path \<Rightarrow> pystr \<Rightarrow> pystr \<Rightarrow> filesystem \<Rightarrow> exn option \<times> filesystem" where
  "history_append p user_question ai_reply fsys =
     (case rotate_history p fsys of
        Inl e \<Rightarrow> (Some e, fsys)
      | Inr fsys1 \<Rightarrow>
          (case fs_append fsys1 p (encode_text fsys1 (history_record user_question ai_reply)) of
             Inl e \<Rightarrow> (Some e, fsys1)
           | Inr fsys2 \<Rightarrow> (None, fsys2)))"

text \<open>Steps 6 and 7 together; the exception, if any, and the state it leaves.\<close>

definition commit :: "config \<Rightarrow> json_lib \<Rightarrow> pystr \<Rightarrow> pystr \<Rightarrow> world \<Rightarrow> exn option \<times> world" where
  "commit cfg lib user_question ai_reply w =
     (let w1 = w\<lparr>bot_data := (bot_data w)\<lparr>conversation_context :=
                   update_context (max_context_msg cfg) user_question ai_reply
                     (conversation_context (bot_data w))\<rparr>\<rparr>;
          w2 = save_data cfg lib w1
      in case history_append (chat_history_file cfg) user_question ai_reply (fs w2) of
           (r, fs') \<Rightarrow> (r, w2\<lparr>fs := fs'\<rparr>))"

text \<open>The two \<^verbatim>\<open>except\<close> clauses of the handler: the reply sent and the error logged.\<close>

definition answer_failed_prefix :: pystr where
  "answer_failed_prefix = [0x274C] @ ascii '' '' @ [0x56DE, 0x7B54, 0x5931, 0x8D25, 0xFF1A]"

definition failure_reply :: "config \<Rightarrow> exn \<Rightarrow> world \<Rightarrow> pystr option \<times> world" where
  "failure_reply cfg e w =
     (case e of
        OpenAIError msg \<Rightarrow>
          (Some (answer_failed_prefix @ msg), log_add (Error_mention_openai msg) w)
      | _ \<Rightarrow> (Some (error_tip cfg), log_add (Error_mention_other e) w))"

definition no_api_key_tip :: pystr where
  "no_api_key_tip =
     [0x274C] @ ascii '' '' @ [0x672A, 0x914D, 0x7F6E] @ ascii ''OpenAI API Key'' @ [0xFF01,
       0x8BF7, 0x68C0, 0x67E5] @ ascii ''.env'' @ [0x6587, 0x4EF6, 0x4E2D, 0x7684] @ ascii
       ''OPENAI_API_KEY'' @ [0x662F, 0x5426, 0x6B63, 0x786E]"

text \<open>Steps 4 to 8: the \<^verbatim>\<open>try\<close> block. The result is the reply sent and the new state.\<close>

definition answer ::
  "config \<Rightarrow> json_lib \<Rightarrow> bot_env \<Rightarrow> pystr \<Rightarrow> world \<Rightarrow> pystr option \<times> world" where
  "answer cfg lib env user_question w =
     (case client env of
        None \<Rightarrow> (Some no_api_key_tip, w)
      | Some create \<Rightarrow>
          (case call_model create (model cfg) (build_messages (bot_data w) user_question) of
             Inl e \<Rightarrow> failure_reply cfg e w
           | Inr ai_reply \<Rightarrow>
               (case commit cfg lib user_question ai_reply w of
                  (Some e, w') \<Rightarrow> failure_reply cfg e w'
                | (None, w') \<Rightarrow>
                    (Some ai_reply, log_add (Info_mention_answered user_question) w'))))"

definition ensure_bot_username :: "bot_env \<Rightarrow> world \<Rightarrow> pystr \<times> world" where
  \<comment> \<open>step 2: \<^verbatim>\<open>if not BOT_USERNAME\<close>, ask the platform and keep the lower-cased name\<close>
  "ensure_bot_username env w =
     (let fetched = py_lower (get_me_username env);
          w' = log_add (Info_bot_username fetched) (w\<lparr>BOT_USERNAME := Some fetched\<rparr>)
      in case BOT_USERNAME w of
           None \<Rightarrow> (fetched, w')
         | Some b \<Rightarrow> if b = [] then (fetched, w') else (b, w))"

definition handle_mention ::
  "config \<Rightarrow> json_lib \<Rightarrow> bot_env \<Rightarrow> update \<Rightarrow> world \<Rightarrow> pystr option \<times> world" where
  "handle_mention cfg lib env upd w =
     (case message_text upd of
        None \<Rightarrow> (Some (non_text_tip cfg), w)
      | Some text \<Rightarrow>
          if text = [] then (Some (non_text_tip cfg), w)
          else
            (let user_name =
                   (case first_name upd of
                      None \<Rightarrow> [0x7528, 0x6237]
                    | Some n \<Rightarrow> if n = [] then [0x7528, 0x6237] else n)
             in case ensure_bot_username env w of
                  (handle, w1) \<Rightarrow>
                    (case parse_mention text (entities upd) handle of
                       (is_mention_me, user_question) \<Rightarrow>
                         if \<not> is_mention_me then (None, w1)
                         else if user_question = []
                         then (Some (py_replace (no_question_tip cfg) (ascii ''{user_name}'')
                                       user_name), w1)
                         else answer cfg lib env user_question w1)))"

text \<open>A conversation: the turn pairs of successive exchanges, folded into the context.\<close>

definition append_pairs :: "int \<Rightarrow> (pystr \<times> pystr) list \<Rightarrow> message list \<Rightarrow> message list" where
  "append_pairs maxlen pairs ctx =
     foldl (\<lambda>c (q, a). update_context maxlen q a c) ctx pairs"

definition turns_of :: "(pystr \<times> pystr) list \<Rightarrow> message list" where
  "turns_of pairs =
     concat (map (\<lambda>(q, a). [\<lparr>role = User, content = q\<rparr>, \<lparr>role = Assistant, content = a\<rparr>]) pairs)"

section \<open>Derived notions used in the statements\<close>

text \<open>
  What one directory entry contributes to the corpus, and the corpus of a directory:
  the loop of \<^verbatim>\<open>load_all_docs\<close> restated as a function of the file system alone.
\<close>

definition doc_text :: "config \<Rightarrow> filesystem \<Rightarrow> pystr \<Rightarrow> pystr" where
  "doc_text cfg fsys filename =
     (if \<not> endswith (py_lower filename) (ascii ''.txt'') then []
      else if getsize fsys (path_join (docs_dir cfg) filename) > MAX_SINGLE_FILE_SIZE then []
      else
        (case read_text fsys (path_join (docs_dir cfg) filename) of
           Inl e \<Rightarrow> []
         | Inr text \<Rightarrow> if py_strip text \<noteq> [] then doc_header filename @ py_strip text else []))"

definition corpus_of :: "config \<Rightarrow> filesystem \<Rightarrow> pystr" where
  "corpus_of cfg fsys = concat (map (doc_text cfg fsys) (listdir fsys (docs_dir cfg)))"

definition is_doc_path :: "config \<Rightarrow> path \<Rightarrow> bool" where
  \<comment> \<open>the path of a \<^verbatim>\<open>.txt\<close> entry of the document directory\<close>
  "is_doc_path cfg p =
     (case entry_name (docs_dir cfg) p of
        None \<Rightarrow> False
      | Some n \<Rightarrow> endswith (py_lower n) (ascii ''.txt''))"

definition rotated :: "pystr \<Rightarrow> bytes option \<Rightarrow> bytes" where
  \<comment> \<open>what the size check of step 7 leaves of the history file before the append, on a
      platform with the given \<^verbatim>\<open>os.linesep\<close>\<close>
  "rotated sep old =
     (case old of
        None \<Rightarrow> []
      | Some bs \<Rightarrow>
          if length bs > 100 * 1024 * 1024
          then utf8_encode (to_linesep sep
                 (ascii ''# '' @ [0x7FA4, 0x804A, 0x5BF9, 0x8BDD, 0x5386, 0x53F2, 0xFF08, 0x81EA,
                    0x52A8, 0x622A, 0x65AD, 0xFF0C, 0x4EC5, 0x4FDD, 0x7559, 0x6700, 0x540E]
                  @ ascii ''50MB'' @ [0xFF09, 10, 10]
                  @ utf8_decode_ignore (drop (length bs - 50 * 1024 * 1024) bs)))
          else bs)"



text \<open>
  A stand-in for the JSON library in concrete evaluations: it knows the documents of the
  listed values and rejects every other file content.
\<close>

definition table_lib :: "(loaded_value \<times> bytes) list \<Rightarrow> json_lib" where
  "table_lib tbl =
     \<lparr>json_dump = (\<lambda>d. case map_of tbl (Dict_state d) of None \<Rightarrow> [] | Some bs \<Rightarrow> bs),
      json_load = (\<lambda>bs. case map_of (map (\<lambda>(v, b). (b, v)) tbl) bs of
                          None \<Rightarrow> Inl JSONDecodeError
                        | Some v \<Rightarrow> Inr v)\<rparr>"

section \<open>Sample values for concrete evaluation\<close>

definition sample_config :: config where
  \<comment> \<open>the default configuration with a short system prompt\<close>
  "sample_config = default_config\<lparr>default_system_prompt := ascii ''Be brief.''\<rparr>"

definition sample_state :: bot_data_dict where
  "sample_state =
     \<lparr>conversation_context =
        [\<lparr>role = User, content = ascii ''hi''\<rparr>, \<lparr>role = Assistant, content = ascii ''hello''\<rparr>],
      knowledge_base = [],
      custom_prompt = ascii ''Be brief.''\<rparr>"

definition sample_state_doc :: bytes where
  \<comment> \<open>the text \<^verbatim>\<open>json.dump\<close> writes for \<open>sample_state\<close>\<close>
  "sample_state_doc =
     ''{'' @ [CHR 0x0A] @ ''  '' @ [CHR 0x22] @ ''conversation_context'' @ [CHR 0x22]
     @ '': ['' @ [CHR 0x0A] @ ''    {'' @ [CHR 0x0A] @ ''      '' @ [CHR 0x22] @ ''role''
     @ [CHR 0x22] @ '': '' @ [CHR 0x22] @ ''user'' @ [CHR 0x22] @ '','' @ [CHR 0x0A]
     @ ''      '' @ [CHR 0x22] @ ''content'' @ [CHR 0x22] @ '': '' @ [CHR 0x22] @ ''hi''
     @ [CHR 0x22, CHR 0x0A] @ ''    },'' @ [CHR 0x0A] @ ''    {'' @ [CHR 0x0A] @ ''      ''
     @ [CHR 0x22] @ ''role'' @ [CHR 0x22] @ '': '' @ [CHR 0x22] @ ''assistant'' @ [CHR 0x22]
     @ '','' @ [CHR 0x0A] @ ''      '' @ [CHR 0x22] @ ''content'' @ [CHR 0x22] @ '': ''
     @ [CHR 0x22] @ ''hello'' @ [CHR 0x22, CHR 0x0A] @ ''    }'' @ [CHR 0x0A] @ ''  ],''
     @ [CHR 0x0A] @ ''  '' @ [CHR 0x22] @ ''knowledge_base'' @ [CHR 0x22] @ '': ''
     @ [CHR 0x22, CHR 0x22] @ '','' @ [CHR 0x0A] @ ''  '' @ [CHR 0x22] @ ''custom_prompt''
     @ [CHR 0x22] @ '': '' @ [CHR 0x22] @ ''Be brief.'' @ [CHR 0x22, CHR 0x0A] @ ''}''"

definition empty_state_doc :: bytes where
  \<comment> \<open>the text \<^verbatim>\<open>json.dump\<close> writes for \<open>empty_bot_data sample_config\<close>\<close>
  "empty_state_doc =
     ''{'' @ [CHR 0x0A] @ ''  '' @ [CHR 0x22] @ ''conversation_context'' @ [CHR 0x22]
     @ '': [],'' @ [CHR 0x0A] @ ''  '' @ [CHR 0x22] @ ''knowledge_base'' @ [CHR 0x22]
     @ '': '' @ [CHR 0x22, CHR 0x22] @ '','' @ [CHR 0x0A] @ ''  '' @ [CHR 0x22]
     @ ''custom_prompt'' @ [CHR 0x22] @ '': '' @ [CHR 0x22] @ ''Be brief.''
     @ [CHR 0x22, CHR 0x0A] @ ''}''"

definition sample_lib :: json_lib where
  \<comment> \<open>with three documents that are JSON, and not a dictionary of the program's shape\<close>
  "sample_lib =
     table_lib [(Dict_state sample_state, sample_state_doc),
                (Dict_state (empty_bot_data sample_config), empty_state_doc),
                (Other_value (JArray []), ''[]''),
                (Other_value (JObject []), ''{}''),
                (Other_value JNull, ''null'')]"

definition sample_world :: world where
  "sample_world =
     \<lparr>bot_data = sample_state, BOT_USERNAME = None,
      fs = \<lparr>files = [], readonly = [], linesep = [10]\<rparr>, logged = []\<rparr>"

definition data_file_world :: "bytes \<Rightarrow> world" where
  \<comment> \<open>a restart onto a data file with the given content\<close>
  "data_file_world bs =
     \<lparr>bot_data = empty_bot_data sample_config, BOT_USERNAME = None,
      fs = \<lparr>files = [(data_file sample_config, bs)], readonly = [], linesep = [10]\<rparr>,
      logged = []\<rparr>"

definition broken_world :: world where
  \<comment> \<open>a restart onto a data file cut off in the middle\<close>
  "broken_world =
     \<lparr>bot_data = empty_bot_data sample_config, BOT_USERNAME = None,
      fs = \<lparr>files = [(data_file sample_config, ''{'' @ [CHR 0x0A] @ ''  '' @ [CHR 0x22] @ ''conv'')],
            readonly = [], linesep = [10]\<rparr>,
      logged = []\<rparr>"

definition cold_world :: world where
  \<comment> \<open>a first start: one document, no history file, no data file\<close>
  "cold_world =
     \<lparr>bot_data = empty_bot_data default_config, BOT_USERNAME = None,
      fs = \<lparr>files = [(ascii ''docs/weather.txt'', ''Sunny, 25C'')], readonly = [],
            linesep = [10]\<rparr>,
      logged = []\<rparr>"

definition warm_world :: world where
  \<comment> \<open>the same directory with the history file in place\<close>
  "warm_world =
     \<lparr>bot_data = empty_bot_data default_config, BOT_USERNAME = None,
      fs = \<lparr>files = [(ascii ''docs/weather.txt'', ''Sunny, 25C''),
                     (ascii ''docs/chat_history.txt'', utf8_encode history_header)],
            readonly = [], linesep = [10]\<rparr>,
      logged = []\<rparr>"

definition sample_env :: bot_env where
  \<comment> \<open>the bot is \<^verbatim>\<open>@Bot\<close>; the model answers every request with the same two lines\<close>
  "sample_env =
     \<lparr>get_me_username = ascii ''Bot'',
      client = Some (\<lambda>m msgs. Response [Some (ascii ''Sunny.'' @ [10] @ ascii ''25C.'')])\<rparr>"

definition sample_update :: update where
  "sample_update =
     \<lparr>message_text = Some (ascii ''@bot weather?''),
      entities = [\<lparr>entity_type = ascii ''mention'', entity_offset = 0, entity_length = 4\<rparr>],
      first_name = Some (ascii ''Ann'')\<rparr>"

definition chatted_world :: world where
  \<comment> \<open>\<open>warm_world\<close> after the exchange \<open>sample_update\<close> with \<open>sample_env\<close>\<close>
  "chatted_world =
     snd (handle_mention default_config sample_lib sample_env sample_update warm_world)"

definition big_history_fs :: filesystem where
  \<comment> \<open>POSIX: a history file of plain ASCII, one byte over the hard cap\<close>
  "big_history_fs =
     \<lparr>files = [(ascii ''docs/chat_history.txt'', replicate (MAX_CHAT_FILE_SIZE + 1) (CHR ''a''))],
      readonly = [], linesep = [10]\<rparr>"

definition big_history_fs_windows :: filesystem where
  \<comment> \<open>Windows: a history file of bare line feeds, one byte over the hard cap\<close>
  "big_history_fs_windows =
     \<lparr>files = [(ascii ''docs/chat_history.txt'', replicate (MAX_CHAT_FILE_SIZE + 1) (CHR 0x0A))],
      readonly = [], linesep = [13, 10]\<rparr>"

definition null_content_env :: bot_env where
  \<comment> \<open>the model answers with a choice whose content is null\<close>
  "null_content_env = sample_env\<lparr>client := Some (\<lambda>m msgs. Response [None])\<rparr>"

definition no_choices_env :: bot_env where
  \<comment> \<open>the model answers without choices\<close>
  "no_choices_env = sample_env\<lparr>client := Some (\<lambda>m msgs. Response [])\<rparr>"

definition quota_env :: bot_env where
  \<comment> \<open>the API call raises an \<^verbatim>\<open>OpenAIError\<close>\<close>
  "quota_env = sample_env\<lparr>client := Some (\<lambda>m msgs. Raises (OpenAIError (ascii ''quota'')))\<rparr>"

definition blank_env :: bot_env where
  \<comment> \<open>the model answers with white space only\<close>
  "blank_env = sample_env\<lparr>client := Some (\<lambda>m msgs. Response [Some (ascii '' '' @ [10])])\<rparr>"

definition locked_history_world :: world where
  \<comment> \<open>\<open>warm_world\<close> with a history file that cannot be opened for writing\<close>
  "locked_history_world =
     warm_world\<lparr>fs := (fs warm_world)\<lparr>readonly := [ascii ''docs/chat_history.txt'']\<rparr>\<rparr>"

definition crash_config :: config where
  \<comment> \<open>\<open>sample_config\<close> with the history file outside the document directory\<close>
  "crash_config = sample_config\<lparr>chat_history_file := ascii ''chat_history.txt''\<rparr>"

definition running_world :: world where
  \<comment> \<open>a running bot before its first exchange: empty state, saved; the history file
      holds its header\<close>
  "running_world =
     \<lparr>bot_data = empty_bot_data crash_config, BOT_USERNAME = Some (ascii ''bot''),
      fs = \<lparr>files = [(ascii ''tg_single_group_data.json'', empty_state_doc),
                     (ascii ''chat_history.txt'', utf8_encode history_header)],
            readonly = [], linesep = [10]\<rparr>,
      logged = []\<rparr>"

definition crashed_world :: world where
  \<comment> \<open>\<open>running_world\<close> in the exchange \<^verbatim>\<open>hi\<close> / \<^verbatim>\<open>hello\<close>, after step 6 (the context
      update and \<^verbatim>\<open>save_data\<close>) and before step 7\<close>
  "crashed_world =
     save_data crash_config sample_lib
       (running_world\<lparr>bot_data := (bot_data running_world)\<lparr>conversation_context :=
           update_context (max_context_msg crash_config) (ascii ''hi'') (ascii ''hello'')
             (conversation_context (bot_data running_world))\<rparr>\<rparr>)"

definition restarted_world :: world where
  \<comment> \<open>a new process on the files \<open>crashed_world\<close> leaves\<close>
  "restarted_world =
     \<lparr>bot_data = empty_bot_data crash_config, BOT_USERNAME = None,
      fs = fs crashed_world, logged = []\<rparr>"

section \<open>Properties of the conversation context\<close>

lemma length_turns_of: "length (turns_of pairs) = 2 * length pairs"
  by (induction pairs) (auto simp: turns_of_def)

lemma turns_of_snoc:
  "turns_of (pairs @ [(q, a)]) =
     turns_of pairs @ [\<lparr>role = User, content = q\<rparr>, \<lparr>role = Assistant, content = a\<rparr>]"
  by (simp add: turns_of_def)

lemma append_pairs_snoc:
  "append_pairs m (pairs @ [(q, a)]) ctx = update_context m q a (append_pairs m pairs ctx)"
  by (simp add: append_pairs_def)

lemma drop_drop_append:
  "b \<le> length t \<Longrightarrow> drop a (drop b t @ n) = drop (a + b) (t @ n)"
  by (simp add: add.commute)

lemma update_context_last_entries:
  assumes "0 < m"
  shows "update_context m q a (drop (length t - nat m) t)
         = drop (length t + 2 - nat m)
             (t @ [\<lparr>role = User, content = q\<rparr>, \<lparr>role = Assistant, content = a\<rparr>])"
proof -
  let ?new = "[\<lparr>role = User, content = q\<rparr>, \<lparr>role = Assistant, content = a\<rparr>]"
  let ?kept = "drop (length t - nat m) t"
  have len: "length ?kept = min (length t) (nat m)" by auto
  show ?thesis
  proof (cases "int (length ?kept + 2) > m")
    case True
    have "py_slice_from (- m) (?kept @ ?new) = drop (length ?kept + 2 - nat m) (?kept @ ?new)"
      using True assms by (simp add: py_slice_from_def nat_diff_distrib' nat_add_distrib)
    also have "\<dots> = drop ((length ?kept + 2 - nat m) + (length t - nat m)) (t @ ?new)"
      by (rule drop_drop_append) simp
    also have "(length ?kept + 2 - nat m) + (length t - nat m) = length t + 2 - nat m"
      unfolding len by (auto simp: min_def)
    finally show ?thesis using True by (simp add: update_context_def Let_def)
  next
    case False
    then have "length t + 2 \<le> nat m"
      using assms unfolding len by (auto simp: min_def split: if_splits)
    then show ?thesis using False by (simp add: update_context_def Let_def)
  qed
qed

lemma append_pairs_last_entries:
  assumes "0 < m"
  shows "append_pairs m pairs [] = drop (length (turns_of pairs) - nat m) (turns_of pairs)"
proof (induction pairs rule: rev_induct)
  case Nil
  show ?case by (simp add: append_pairs_def turns_of_def)
next
  case (snoc p pairs)
  obtain q a where p: "p = (q, a)" by (cases p)
  show ?case
    using update_context_last_entries [OF assms, of q a "turns_of pairs"]
    by (simp add: p append_pairs_snoc turns_of_snoc snoc.IH)
qed

lemma suffix_py_slice_from: "suffix (py_slice_from i xs) xs"
  by (simp add: py_slice_from_def suffix_drop)

lemma suffix_update_context:
  "suffix (update_context m q a ctx)
     (ctx @ [\<lparr>role = User, content = q\<rparr>, \<lparr>role = Assistant, content = a\<rparr>])"
  using suffix_py_slice_from
    [of "- m" "ctx @ [\<lparr>role = User, content = q\<rparr>, \<lparr>role = Assistant, content = a\<rparr>]"]
  by (simp add: update_context_def Let_def)

lemma suffix_append_pairs: "suffix (append_pairs m pairs []) (turns_of pairs)"
proof (induction pairs rule: rev_induct)
  case Nil
  show ?case by (simp add: append_pairs_def turns_of_def)
next
  case (snoc p pairs)
  obtain q a where p: "p = (q, a)" by (cases p)
  let ?new = "[\<lparr>role = User, content = q\<rparr>, \<lparr>role = Assistant, content = a\<rparr>]"
  have "suffix (update_context m q a (append_pairs m pairs [])) (append_pairs m pairs [] @ ?new)"
    by (rule suffix_update_context)
  also have "suffix (append_pairs m pairs [] @ ?new) (turns_of pairs @ ?new)"
    using snoc.IH by simp
  finally show ?case by (simp add: p append_pairs_snoc turns_of_snoc)
qed

text \<open>
  Claim C2, as the code has it. After the turn pairs of any number of exchanges have
  been appended to an empty context, one exchange after the other, the context is a
  contiguous suffix of the whole conversation: trimming removes from the oldest end
  only. For a positive \<^verbatim>\<open>max_context_msg\<close> it has \<open>min (2 N) max_context_msg\<close>
  entries, the most recent ones; for a positive and even \<^verbatim>\<open>max_context_msg\<close> that
  number is even. Every prefix of a conversation is a conversation, so this holds after
  every append.
\<close>

theorem context_bounded_even_suffix:
  "suffix (append_pairs m pairs []) (turns_of pairs)
   \<and> (0 < m \<longrightarrow>
        length (append_pairs m pairs []) = min (2 * length pairs) (nat m)
        \<and> append_pairs m pairs [] = drop (2 * length pairs - nat m) (turns_of pairs))
   \<and> (0 < m \<and> even m \<longrightarrow> even (length (append_pairs m pairs [])))"
proof -
  have eq: "append_pairs m pairs [] = drop (2 * length pairs - nat m) (turns_of pairs)" if "0 < m"
    using append_pairs_last_entries [OF that, of pairs] by (simp add: length_turns_of)
  have len: "length (append_pairs m pairs []) = min (2 * length pairs) (nat m)" if "0 < m"
    unfolding eq [OF that] by (auto simp: length_turns_of)
  have ev: "even (length (append_pairs m pairs []))" if "0 < m" "even m"
  proof -
    have "even (nat m)" using that by (simp add: even_nat_iff)
    then show ?thesis unfolding len [OF that(1)] by (simp add: min_def)
  qed
  from suffix_append_pairs eq len ev show ?thesis by blast
qed

theorem context_bounded_even_suffix_witness:
  "0 < max_context_msg default_config \<and> even (max_context_msg default_config)
   \<and> suffix (append_pairs (max_context_msg default_config)
               (replicate 11 (ascii ''q'', ascii ''a'')) [])
        (turns_of (replicate 11 (ascii ''q'', ascii ''a'')))
   \<and> length (append_pairs (max_context_msg default_config)
               (replicate 11 (ascii ''q'', ascii ''a'')) [])
       = min (2 * length (replicate 11 (ascii ''q'', ascii ''a'')))
             (nat (max_context_msg default_config))
   \<and> even (length (append_pairs (max_context_msg default_config)
                     (replicate 11 (ascii ''q'', ascii ''a'')) []))"
proof -
  have p1: "0 < max_context_msg default_config"
    and p2: "even (max_context_msg default_config)"
    by (simp_all add: default_config_def)
  from context_bounded_even_suffix
         [of "max_context_msg default_config" "replicate 11 (ascii ''q'', ascii ''a'')"]
  show ?thesis using p1 p2 by blast
qed

text \<open>
  The claim as stated fails for other configured maxima: with \<^verbatim>\<open>max_context_msg = 5\<close>
  three exchanges leave five entries, an odd number (the oldest pair is split); with
  \<^verbatim>\<open>max_context_msg = 0\<close> the slice \<^verbatim>\<open>ctx[-0:]\<close> keeps the whole list.
\<close>

theorem context_bounded_even_counterexample:
  "length (append_pairs 5 [(ascii ''q1'', ascii ''a1''), (ascii ''q2'', ascii ''a2''),
                           (ascii ''q3'', ascii ''a3'')] []) = 5
   \<and> odd (length (append_pairs 5 [(ascii ''q1'', ascii ''a1''), (ascii ''q2'', ascii ''a2''),
                                  (ascii ''q3'', ascii ''a3'')] []))
   \<and> length (append_pairs 0 [(ascii ''q1'', ascii ''a1'')] []) = 2"
  by (simp add: append_pairs_def update_context_def py_slice_from_def)

section \<open>Mention parsing\<close>

lemmas str_defs =
  ascii_def py_slice_def py_lower_def lower_char_def py_replace_def startswith_def
  py_strip_def py_lstrip_def py_rstrip_def py_isspace_def

lemma parse_mention_question:
  "parse_mention (ascii ''@bot hello there'')
     [\<lparr>entity_type = ascii ''mention'', entity_offset = 0, entity_length = 4\<rparr>] (ascii ''bot'')
   = (True, ascii ''hello there'')"
  by (simp add: parse_mention_def str_defs)

lemma parse_mention_alone:
  "parse_mention (ascii ''@bot'')
     [\<lparr>entity_type = ascii ''mention'', entity_offset = 0, entity_length = 4\<rparr>] (ascii ''bot'')
   = (True, [])"
  by (simp add: parse_mention_def str_defs)

lemma parse_mention_none:
  "parse_mention (ascii ''hello'') [] (ascii ''bot'') = (False, ascii ''hello'')"
  by (simp add: parse_mention_def str_defs)

lemma ascii_nonempty [simp]: "(ascii (c # cs) = []) = False"
  by (simp add: ascii_def)

lemma handle_mention_question:
  "handle_mention cfg lib env
     \<lparr>message_text = Some (ascii ''@bot hello there''),
      entities = [\<lparr>entity_type = ascii ''mention'', entity_offset = 0, entity_length = 4\<rparr>],
      first_name = Some (ascii ''Ann'')\<rparr>
     (w\<lparr>BOT_USERNAME := Some (ascii ''bot'')\<rparr>)
   = answer cfg lib env (ascii ''hello there'') (w\<lparr>BOT_USERNAME := Some (ascii ''bot'')\<rparr>)"
  by (simp add: handle_mention_def ensure_bot_username_def Let_def parse_mention_question)

lemma handle_mention_alone:
  "handle_mention cfg lib env
     \<lparr>message_text = Some (ascii ''@bot''),
      entities = [\<lparr>entity_type = ascii ''mention'', entity_offset = 0, entity_length = 4\<rparr>],
      first_name = Some (ascii ''Ann'')\<rparr>
     (w\<lparr>BOT_USERNAME := Some (ascii ''bot'')\<rparr>)
   = (Some (py_replace (no_question_tip cfg) (ascii ''{user_name}'') (ascii ''Ann'')),
      w\<lparr>BOT_USERNAME := Some (ascii ''bot'')\<rparr>)"
  by (simp add: handle_mention_def ensure_bot_username_def Let_def parse_mention_alone)

lemma handle_mention_none:
  "handle_mention cfg lib env
     \<lparr>message_text = Some (ascii ''hello''), entities = [], first_name = Some (ascii ''Ann'')\<rparr>
     (w\<lparr>BOT_USERNAME := Some (ascii ''bot'')\<rparr>)
   = (None, w\<lparr>BOT_USERNAME := Some (ascii ''bot'')\<rparr>)"
  by (simp add: handle_mention_def ensure_bot_username_def Let_def parse_mention_none)

text \<open>
  Claim C6. With the bot's handle \<^verbatim>\<open>bot\<close>: the text \<^verbatim>\<open>@bot hello there\<close> with a mention
  span over \<^verbatim>\<open>@bot\<close> is addressed to the bot with the question \<^verbatim>\<open>hello there\<close>, which
  is what the handler goes on to answer; \<^verbatim>\<open>@bot\<close> alone is addressed to the bot with an
  empty question, and the handler replies with the no-question prompt for the sender
  and changes nothing; \<^verbatim>\<open>hello\<close> without mention spans is not addressed to the bot, and
  the handler sends nothing and changes nothing.
\<close>

theorem mention_parsing_examples:
  "parse_mention (ascii ''@bot hello there'')
      [\<lparr>entity_type = ascii ''mention'', entity_offset = 0, entity_length = 4\<rparr>] (ascii ''bot'')
     = (True, ascii ''hello there'')
   \<and> handle_mention cfg lib env
        \<lparr>message_text = Some (ascii ''@bot hello there''),
         entities = [\<lparr>entity_type = ascii ''mention'', entity_offset = 0, entity_length = 4\<rparr>],
         first_name = Some (ascii ''Ann'')\<rparr>
        (w\<lparr>BOT_USERNAME := Some (ascii ''bot'')\<rparr>)
     = answer cfg lib env (ascii ''hello there'') (w\<lparr>BOT_USERNAME := Some (ascii ''bot'')\<rparr>)
   \<and> parse_mention (ascii ''@bot'')
      [\<lparr>entity_type = ascii ''mention'', entity_offset = 0, entity_length = 4\<rparr>] (ascii ''bot'')
     = (True, [])
   \<and> handle_mention cfg lib env
        \<lparr>message_text = Some (ascii ''@bot''),
         entities = [\<lparr>entity_type = ascii ''mention'', entity_offset = 0, entity_length = 4\<rparr>],
         first_name = Some (ascii ''Ann'')\<rparr>
        (w\<lparr>BOT_USERNAME := Some (ascii ''bot'')\<rparr>)
     = (Some (py_replace (no_question_tip cfg) (ascii ''{user_name}'') (ascii ''Ann'')),
        w\<lparr>BOT_USERNAME := Some (ascii ''bot'')\<rparr>)
   \<and> fst (parse_mention (ascii ''hello'') [] (ascii ''bot'')) = False
   \<and> handle_mention cfg lib env
        \<lparr>message_text = Some (ascii ''hello''), entities = [], first_name = Some (ascii ''Ann'')\<rparr>
        (w\<lparr>BOT_USERNAME := Some (ascii ''bot'')\<rparr>)
     = (None, w\<lparr>BOT_USERNAME := Some (ascii ''bot'')\<rparr>)"
  by (simp only: parse_mention_question parse_mention_alone parse_mention_none
        handle_mention_question handle_mention_alone handle_mention_none fst_conv simp_thms)

section \<open>Persistence\<close>

lemma fs_write_ok:
  "p \<notin> set (readonly fsys) \<Longrightarrow>
   fs_write fsys p bs = Inr (fsys\<lparr>files := AList.update p bs (files fsys)\<rparr>)"
  by (simp add: fs_write_def)

lemma save_data_ok:
  assumes "data_file cfg \<notin> set (readonly (fs w))"
  shows "save_data cfg lib w =
           log_add (Debug_data_saved (data_file cfg))
             (w\<lparr>fs := (fs w)\<lparr>files :=
                  AList.update (data_file cfg) (json_dump lib (bot_data w)) (files (fs w))\<rparr>\<rparr>)"
  using assms by (simp add: save_data_def fs_write_ok)

lemma save_data_locked:
  assumes "data_file cfg \<in> set (readonly (fs w))"
  shows "save_data cfg lib w = log_add (Error_save_failed OSError (data_file cfg)) w"
  using assms by (simp add: save_data_def fs_write_def)

lemma save_data_bot_data [simp]: "bot_data (save_data cfg lib w) = bot_data w"
  by (simp add: save_data_def log_add_def split: sum.splits)

lemma save_data_username [simp]: "BOT_USERNAME (save_data cfg lib w) = BOT_USERNAME w"
  by (simp add: save_data_def log_add_def split: sum.splits)

lemma save_data_readonly [simp]: "readonly (fs (save_data cfg lib w)) = readonly (fs w)"
  by (auto simp: save_data_def log_add_def fs_write_def split: sum.splits if_splits)

lemma save_data_linesep [simp]: "linesep (fs (save_data cfg lib w)) = linesep (fs w)"
  by (auto simp: save_data_def log_add_def fs_write_def split: sum.splits if_splits)

lemma save_data_read_data_file:
  assumes "data_file cfg \<notin> set (readonly (fs w))"
  shows "fs_read (fs (save_data cfg lib w)) (data_file cfg) = Some (json_dump lib (bot_data w))"
  using assms by (simp add: save_data_ok log_add_def fs_read_def update_conv')

lemma sample_lib_sample:
  "json_dump sample_lib sample_state = sample_state_doc"
  "json_load sample_lib sample_state_doc = Inr (Dict_state sample_state)"
  by (simp_all add: sample_lib_def table_lib_def)

lemma sample_docs_differ: "sample_state_doc \<noteq> empty_state_doc"
  by (simp add: sample_state_doc_def empty_state_doc_def)

lemma sample_states_differ: "sample_state \<noteq> empty_bot_data sample_config"
  by (simp add: sample_state_def empty_bot_data_def)

lemma sample_lib_empty:
  "json_dump sample_lib (empty_bot_data sample_config) = empty_state_doc"
  "json_load sample_lib empty_state_doc = Inr (Dict_state (empty_bot_data sample_config))"
  using sample_docs_differ sample_states_differ
  by (auto simp add: sample_lib_def table_lib_def)

lemma sample_lib_broken:
  "json_load sample_lib (''{'' @ [CHR 0x0A] @ ''  '' @ [CHR 0x22] @ ''conv'')
   = Inl JSONDecodeError"
  by (simp add: sample_lib_def table_lib_def sample_state_doc_def empty_state_doc_def)

lemma sample_lib_other:
  "json_load sample_lib ''[]'' = Inr (Other_value (JArray []))"
  "json_load sample_lib ''{}'' = Inr (Other_value (JObject []))"
  "json_load sample_lib ''null'' = Inr (Other_value JNull)"
  by (simp_all add: sample_lib_def table_lib_def sample_state_doc_def empty_state_doc_def)

lemma sample_default:
  "empty_bot_data sample_config
   = \<lparr>conversation_context = [], knowledge_base = [], custom_prompt = ascii ''Be brief.''\<rparr>"
  "default_system_prompt sample_config = ascii ''Be brief.''"
  "data_file sample_config = ascii ''tg_single_group_data.json''"
  by (simp_all add: empty_bot_data_def sample_config_def default_config_def)

text \<open>
  Claim C1. A state that the JSON library writes and reads back unchanged (a
  JSON-serializable state), saved by \<^verbatim>\<open>save_data\<close> to a data file that can be written,
  is the state \<^verbatim>\<open>load_data\<close> returns, whatever was in memory before the load: the load
  ends with \<^verbatim>\<open>bot_data\<close> equal to the state saved, and changes nothing else but the log.
\<close>

theorem save_load_round_trip:
  assumes "data_file cfg \<notin> set (readonly (fs w))"
    and "json_load lib (json_dump lib (bot_data w)) = Inr (Dict_state (bot_data w))"
  shows "\<exists>w1. load_data cfg lib ((save_data cfg lib w)\<lparr>bot_data := d\<rparr>) = Loaded w1
            \<and> bot_data w1 = bot_data w
            \<and> w1 = log_add Info_data_restored (save_data cfg lib w)"
proof -
  have "((save_data cfg lib w)\<lparr>bot_data := d\<rparr>)\<lparr>bot_data := bot_data w\<rparr> = save_data cfg lib w"
    using save_data_bot_data [of cfg lib w] by (cases "save_data cfg lib w") simp
  then show ?thesis
    using assms(2) save_data_read_data_file [OF assms(1), of lib]
    by (simp add: load_data_def log_add_def)
qed

theorem save_load_round_trip_witness:
  "data_file sample_config \<notin> set (readonly (fs sample_world))
   \<and> json_load sample_lib (json_dump sample_lib (bot_data sample_world))
       = Inr (Dict_state (bot_data sample_world))
   \<and> (\<exists>w1. load_data sample_config sample_lib
              ((save_data sample_config sample_lib sample_world)
                 \<lparr>bot_data := empty_bot_data sample_config\<rparr>) = Loaded w1
          \<and> bot_data w1 = sample_state)"
proof -
  have h1: "data_file sample_config \<notin> set (readonly (fs sample_world))"
    by (simp add: sample_world_def)
  have h2: "json_load sample_lib (json_dump sample_lib (bot_data sample_world))
            = Inr (Dict_state (bot_data sample_world))"
    by (simp add: sample_world_def sample_lib_sample)
  have b: "bot_data sample_world = sample_state"
    by (simp add: sample_world_def)
  from save_load_round_trip [OF h1 h2, of "empty_bot_data sample_config"]
  obtain w1 where
    "load_data sample_config sample_lib
       ((save_data sample_config sample_lib sample_world)
          \<lparr>bot_data := empty_bot_data sample_config\<rparr>) = Loaded w1"
    "bot_data w1 = bot_data sample_world"
    by blast
  with h1 h2 b show ?thesis by simp
qed

text \<open>
  Claim C3, as the code has it. When the data file exists and \<^verbatim>\<open>json.load\<close> raises on
  its content, \<^verbatim>\<open>load_data\<close> logs the error, binds \<^verbatim>\<open>bot_data\<close> to the default state
  (no conversation, no corpus, the default system prompt) and writes that state to the
  data file (the file can be written, and the library reads the default state back); a
  second \<^verbatim>\<open>load_data\<close> right after it restores that state from the file: it takes the
  success branch, logs no error and changes nothing else.
\<close>

theorem load_malformed_self_heals:
  assumes "fs_read (fs w) (data_file cfg) = Some bs"
    and "json_load lib bs = Inl e"
    and "data_file cfg \<notin> set (readonly (fs w))"
    and "json_load lib (json_dump lib
           \<lparr>conversation_context = [], knowledge_base = [],
            custom_prompt = default_system_prompt cfg\<rparr>)
         = Inr (Dict_state
           \<lparr>conversation_context = [], knowledge_base = [],
            custom_prompt = default_system_prompt cfg\<rparr>)"
  shows "\<exists>w1. load_data cfg lib w = Loaded w1
       \<and> bot_data w1 = \<lparr>conversation_context = [], knowledge_base = [],
                         custom_prompt = default_system_prompt cfg\<rparr>
       \<and> fs_read (fs w1) (data_file cfg)
           = Some (json_dump lib \<lparr>conversation_context = [], knowledge_base = [],
                                  custom_prompt = default_system_prompt cfg\<rparr>)
       \<and> logged w1
           = logged w @ [if e = JSONDecodeError then Error_data_format (data_file cfg)
                         else Error_data_load e,
                         Debug_data_saved (data_file cfg)]
       \<and> load_data cfg lib w1 = Loaded (log_add Info_data_restored w1)"
proof -
  let ?d = "\<lparr>conversation_context = [], knowledge_base = [],
            custom_prompt = default_system_prompt cfg\<rparr>"
  let ?entry = "if e = JSONDecodeError then Error_data_format (data_file cfg)
                else Error_data_load e"
  define w1 where "w1 = save_data cfg lib ((log_add ?entry w)\<lparr>bot_data := ?d\<rparr>)"
  have l: "load_data cfg lib w = Loaded w1"
    using assms(1,2) by (simp add: load_data_def empty_bot_data_def w1_def)
  have ro: "data_file cfg \<notin> set (readonly (fs ((log_add ?entry w)\<lparr>bot_data := ?d\<rparr>)))"
    using assms(3) by (simp add: log_add_def)
  have b: "bot_data w1 = ?d" by (simp add: w1_def)
  have r: "fs_read (fs w1) (data_file cfg) = Some (json_dump lib ?d)"
    unfolding w1_def using save_data_read_data_file [OF ro, of lib] by simp
  have g: "logged w1 = logged w @ [?entry, Debug_data_saved (data_file cfg)]"
    unfolding w1_def save_data_ok [OF ro] by (simp add: log_add_def)
  have "w1\<lparr>bot_data := ?d\<rparr> = w1"
    using b by (cases w1) simp
  then have s: "load_data cfg lib w1 = Loaded (log_add Info_data_restored w1)"
    by (simp add: load_data_def r assms(4))
  from l b r g s show ?thesis by blast
qed

theorem load_malformed_self_heals_witness:
  "fs_read (fs broken_world) (data_file sample_config)
     = Some (''{'' @ [CHR 0x0A] @ ''  '' @ [CHR 0x22] @ ''conv'')
   \<and> json_load sample_lib (''{'' @ [CHR 0x0A] @ ''  '' @ [CHR 0x22] @ ''conv'')
       = Inl JSONDecodeError
   \<and> data_file sample_config \<notin> set (readonly (fs broken_world))
   \<and> json_load sample_lib (json_dump sample_lib
         \<lparr>conversation_context = [], knowledge_base = [], custom_prompt = ascii ''Be brief.''\<rparr>)
       = Inr (Dict_state
         \<lparr>conversation_context = [], knowledge_base = [], custom_prompt = ascii ''Be brief.''\<rparr>)
   \<and> (\<exists>w1. load_data sample_config sample_lib broken_world = Loaded w1
          \<and> bot_data w1
              = \<lparr>conversation_context = [], knowledge_base = [],
                 custom_prompt = ascii ''Be brief.''\<rparr>
          \<and> fs_read (fs w1) (ascii ''tg_single_group_data.json'') = Some empty_state_doc
          \<and> logged w1 = [Error_data_format (ascii ''tg_single_group_data.json''),
                          Debug_data_saved (ascii ''tg_single_group_data.json'')]
          \<and> load_data sample_config sample_lib w1 = Loaded (log_add Info_data_restored w1))"
proof -
  have h1: "fs_read (fs broken_world) (data_file sample_config)
            = Some (''{'' @ [CHR 0x0A] @ ''  '' @ [CHR 0x22] @ ''conv'')"
    by (simp add: broken_world_def fs_read_def)
  have h3: "data_file sample_config \<notin> set (readonly (fs broken_world))"
    by (simp add: broken_world_def)
  have h4: "json_load sample_lib (json_dump sample_lib
              \<lparr>conversation_context = [], knowledge_base = [],
               custom_prompt = default_system_prompt sample_config\<rparr>)
            = Inr (Dict_state
              \<lparr>conversation_context = [], knowledge_base = [],
               custom_prompt = default_system_prompt sample_config\<rparr>)"
    using sample_lib_empty by (simp add: sample_default)
  have g: "logged broken_world = []" by (simp add: broken_world_def)
  note t = load_malformed_self_heals [OF h1 sample_lib_broken h3 h4,
             unfolded sample_default(2,3) g append_Nil if_True]
  have e: "json_dump sample_lib
             \<lparr>conversation_context = [], knowledge_base = [], custom_prompt = ascii ''Be brief.''\<rparr>
           = empty_state_doc"
    using sample_lib_empty(1) by (simp add: sample_default)
  from t have "\<exists>w1. load_data sample_config sample_lib broken_world = Loaded w1
          \<and> bot_data w1
              = \<lparr>conversation_context = [], knowledge_base = [],
                 custom_prompt = ascii ''Be brief.''\<rparr>
          \<and> fs_read (fs w1) (ascii ''tg_single_group_data.json'') = Some empty_state_doc
          \<and> logged w1 = [Error_data_format (ascii ''tg_single_group_data.json''),
                          Debug_data_saved (ascii ''tg_single_group_data.json'')]
          \<and> load_data sample_config sample_lib w1 = Loaded (log_add Info_data_restored w1)"
    unfolding e by simp
  moreover note h1 [unfolded sample_default(3)] sample_lib_broken
    h3 [unfolded sample_default(3)] h4 [unfolded sample_default(2)]
  ultimately show ?thesis unfolding sample_default(3) by blast
qed

text \<open>
  The claim as stated fails for a file that is JSON of another shape: \<^verbatim>\<open>json.load\<close>
  does not raise on \<^verbatim>\<open>[]\<close>, \<^verbatim>\<open>{}\<close> or \<^verbatim>\<open>null\<close>, and \<^verbatim>\<open>load_data\<close> binds
  \<^verbatim>\<open>bot_data\<close> to the value read, logs a successful restore, and neither substitutes
  the default state nor rewrites the file.
\<close>

theorem load_malformed_counterexample:
  "load_data sample_config sample_lib (data_file_world ''[]'')
     = Loaded_other (JArray []) None (fs (data_file_world ''[]'')) [Info_data_restored]
   \<and> fs_read (fs (data_file_world ''[]'')) (data_file sample_config) = Some ''[]''
   \<and> load_data sample_config sample_lib (data_file_world ''{}'')
     = Loaded_other (JObject []) None (fs (data_file_world ''{}'')) [Info_data_restored]
   \<and> fs_read (fs (data_file_world ''{}'')) (data_file sample_config) = Some ''{}''
   \<and> load_data sample_config sample_lib (data_file_world ''null'')
     = Loaded_other JNull None (fs (data_file_world ''null'')) [Info_data_restored]
   \<and> fs_read (fs (data_file_world ''null'')) (data_file sample_config) = Some ''null''"
  by (simp add: load_data_def data_file_world_def fs_read_def sample_lib_other)

section \<open>Writing in text mode\<close>

lemma to_linesep_append: "to_linesep sep (s @ t) = to_linesep sep s @ to_linesep sep t"
  by (simp add: to_linesep_def)

lemma to_linesep_posix [simp]: "to_linesep [10] s = s"
  by (induction s) (simp_all add: to_linesep_def)

lemma to_linesep_no_newline: "10 \<notin> set s \<Longrightarrow> to_linesep sep s = s"
  by (induction s) (auto simp: to_linesep_def)

section \<open>The corpus loader\<close>

subsection \<open>The loop over the directory\<close>

lemma load_doc_fs [simp]: "fs (fst (load_doc cfg n (w, t))) = fs w"
  by (simp add: load_doc_def log_add_def Let_def split: sum.splits)

lemma load_doc_username [simp]: "BOT_USERNAME (fst (load_doc cfg n (w, t))) = BOT_USERNAME w"
  by (simp add: load_doc_def log_add_def Let_def split: sum.splits)

lemma load_doc_context [simp]:
  "conversation_context (bot_data (fst (load_doc cfg n (w, t)))) = conversation_context (bot_data w)"
  by (simp add: load_doc_def log_add_def Let_def split: sum.splits)

lemma load_doc_prompt [simp]:
  "custom_prompt (bot_data (fst (load_doc cfg n (w, t)))) = custom_prompt (bot_data w)"
  by (simp add: load_doc_def log_add_def Let_def split: sum.splits)

lemma load_doc_knowledge_base:
  "knowledge_base (bot_data (fst (load_doc cfg n (w, t))))
   = knowledge_base (bot_data w) @ doc_text cfg (fs w) n"
  by (simp add: load_doc_def doc_text_def log_add_def Let_def split: sum.splits)

lemma load_docs_loop:
  "fs (fst (foldl (\<lambda>acc f. load_doc cfg f acc) (w, t) ns)) = fs w
   \<and> BOT_USERNAME (fst (foldl (\<lambda>acc f. load_doc cfg f acc) (w, t) ns)) = BOT_USERNAME w
   \<and> conversation_context (bot_data (fst (foldl (\<lambda>acc f. load_doc cfg f acc) (w, t) ns)))
       = conversation_context (bot_data w)
   \<and> custom_prompt (bot_data (fst (foldl (\<lambda>acc f. load_doc cfg f acc) (w, t) ns)))
       = custom_prompt (bot_data w)
   \<and> knowledge_base (bot_data (fst (foldl (\<lambda>acc f. load_doc cfg f acc) (w, t) ns)))
       = knowledge_base (bot_data w) @ concat (map (doc_text cfg (fs w)) ns)"
proof (induction ns arbitrary: w t)
  case Nil
  show ?case by simp
next
  case (Cons n ns)
  obtain w' t' where step: "load_doc cfg n (w, t) = (w', t')"
    by (cases "load_doc cfg n (w, t)")
  have w': "w' = fst (load_doc cfg n (w, t))" using step by simp
  have facts: "fs w' = fs w" "BOT_USERNAME w' = BOT_USERNAME w"
    "conversation_context (bot_data w') = conversation_context (bot_data w)"
    "custom_prompt (bot_data w') = custom_prompt (bot_data w)"
    "knowledge_base (bot_data w') = knowledge_base (bot_data w) @ doc_text cfg (fs w) n"
    unfolding w' by (simp_all add: load_doc_knowledge_base)
  show ?case
    using Cons.IH [of w' t'] by (simp add: step facts)
qed


subsection \<open>The history step\<close>

lemma load_history_knowledge_base:
  "load_history cfg w = Inr (c, w') \<Longrightarrow>
   knowledge_base (bot_data w') = knowledge_base (bot_data w)"
  by (auto simp: load_history_def log_add_def Let_def split: if_splits sum.splits)

lemma load_history_context:
  "load_history cfg w = Inr (c, w') \<Longrightarrow>
   conversation_context (bot_data w') =
     (case read_text (fs w) (chat_history_file cfg) of
        Inl e \<Rightarrow> conversation_context (bot_data w)
      | Inr text \<Rightarrow>
          trim_context (max_context_msg cfg) (parse_history (py_readlines text) [] [] []))"
  by (auto simp: load_history_def log_add_def Let_def read_text_def fs_exists_def
           split: if_splits sum.splits option.splits)

lemma load_history_raises:
  "load_history cfg w = Inl e \<Longrightarrow> read_text (fs w) (chat_history_file cfg) = Inl FileNotFoundError"
  by (auto simp: load_history_def log_add_def Let_def read_text_def fs_exists_def
           split: if_splits sum.splits option.splits)

lemma load_history_fs:
  "load_history cfg w = Inr (c, w') \<Longrightarrow>
   fs w' = fs w
   \<or> (\<not> fs_exists (fs w) (chat_history_file cfg)
       \<and> fs_write (fs w) (chat_history_file cfg) (encode_text (fs w) history_header)
           = Inr (fs w'))"
  by (auto simp: load_history_def log_add_def Let_def split: if_splits sum.splits)

lemma save_data_fs:
  "fs (save_data cfg lib w) = fs w
   \<or> fs_write (fs w) (data_file cfg) (json_dump lib (bot_data w)) = Inr (fs (save_data cfg lib w))"
  by (auto simp: save_data_def log_add_def split: sum.splits)

subsection \<open>The corpus is a function of the directory\<close>

lemma load_all_docs_knowledge_base:
  "knowledge_base (bot_data (snd (load_all_docs cfg lib notify w))) = corpus_of cfg (fs w)"
proof -
  let ?w0 = "log_add (Info_docs_loading (docs_dir cfg))
               (w\<lparr>bot_data := (bot_data w)\<lparr>knowledge_base := []\<rparr>\<rparr>)"
  let ?r = "foldl (\<lambda>acc filename. load_doc cfg filename acc) (?w0, 0)
              (listdir (fs ?w0) (docs_dir cfg))"
  have fs0: "fs ?w0 = fs w" by (simp add: log_add_def)
  have kb0: "knowledge_base (bot_data ?w0) = []" by (simp add: log_add_def)
  have kb1: "knowledge_base (bot_data (fst ?r)) = corpus_of cfg (fs w)"
    using load_docs_loop [of cfg ?w0 0 "listdir (fs ?w0) (docs_dir cfg)"]
    by (simp add: corpus_of_def fs0 kb0)
  obtain w1 total where r: "?r = (w1, total)" by (cases ?r)
  have kb1': "knowledge_base (bot_data w1) = corpus_of cfg (fs w)"
    using kb1 r by simp
  show ?thesis
  proof (cases "load_history cfg w1")
    case (Inl e)
    then show ?thesis
      using r kb1' by (simp add: load_all_docs_def Let_def)
  next
    case (Inr cw)
    obtain c w2 where cw: "cw = (c, w2)" by (cases cw)
    have "knowledge_base (bot_data w2) = corpus_of cfg (fs w)"
      using load_history_knowledge_base [of cfg w1 c w2] Inr cw kb1' by simp
    then show ?thesis
      using r Inr cw by (simp add: load_all_docs_def Let_def log_add_def)
  qed
qed


subsection \<open>Writes that leave the corpus alone\<close>

lemma entry_name_SomeD:
  "entry_name d q = Some n \<Longrightarrow> q = dir_prefix d @ n \<and> n \<noteq> [] \<and> 47 \<notin> set n"
  by (auto simp: entry_name_def Let_def split: if_splits) (metis append_take_drop_id)

lemma path_join_entry:
  assumes "entry_name d q = Some n"
  shows "path_join d n = q"
proof -
  from entry_name_SomeD [OF assms] have q: "q = dir_prefix d @ n" and n: "n \<noteq> []" "47 \<notin> set n"
    by simp_all
  from n have "\<not> startswith n [47]"
    by (cases n) (auto simp: startswith_def)
  then show ?thesis by (simp add: path_join_def q)
qed

lemma listdir_entry:
  "n \<in> set (listdir fsys d) \<Longrightarrow> \<exists>q. entry_name d q = Some n"
  by (auto simp: listdir_def List.map_filter_def)

lemma fs_read_write:
  "fs_write fsys p bs = Inr fsys' \<Longrightarrow>
   fs_read fsys' q = (if q = p then Some bs else fs_read fsys q)"
  by (auto simp: fs_write_def fs_read_def update_conv' split: if_splits)

lemma listdir_write:
  assumes "fs_write fsys p bs = Inr fsys'"
  shows "listdir fsys' d =
           (if fs_exists fsys p then listdir fsys d
            else listdir fsys d @ (case entry_name d p of None \<Rightarrow> [] | Some n \<Rightarrow> [n]))"
proof -
  from assms have f: "files fsys' = AList.update p bs (files fsys)"
    by (auto simp: fs_write_def split: if_splits)
  have ex: "fs_exists fsys p = (p \<in> set (map fst (files fsys)))"
    by (simp add: fs_exists_def fs_read_def map_of_eq_None_iff)
  show ?thesis
    unfolding listdir_def f update_keys ex
    by (simp add: List.map_filter_def split: option.splits)
qed

lemma doc_text_write:
  assumes w: "fs_write fsys p bs = Inr fsys'"
    and p: "\<not> is_doc_path cfg p"
    and n: "entry_name (docs_dir cfg) q = Some n"
  shows "doc_text cfg fsys' n = doc_text cfg fsys n"
proof (cases "endswith (py_lower n) (ascii ''.txt'')")
  case False
  then show ?thesis by (simp add: doc_text_def)
next
  case True
  have j: "path_join (docs_dir cfg) n = q" by (rule path_join_entry [OF n])
  have "is_doc_path cfg q" using n True by (simp add: is_doc_path_def)
  with p have "q \<noteq> p" by auto
  then have "fs_read fsys' q = fs_read fsys q"
    using fs_read_write [OF w, of q] by simp
  then show ?thesis
    by (simp add: doc_text_def j getsize_def read_text_def)
qed

lemma corpus_of_write:
  assumes w: "fs_write fsys p bs = Inr fsys'"
    and p: "\<not> is_doc_path cfg p"
  shows "corpus_of cfg fsys' = corpus_of cfg fsys"
proof -
  have old: "map (doc_text cfg fsys') (listdir fsys (docs_dir cfg))
             = map (doc_text cfg fsys) (listdir fsys (docs_dir cfg))"
  proof (rule map_cong [OF refl])
    fix n assume "n \<in> set (listdir fsys (docs_dir cfg))"
    then obtain q where "entry_name (docs_dir cfg) q = Some n"
      using listdir_entry by blast
    then show "doc_text cfg fsys' n = doc_text cfg fsys n"
      by (rule doc_text_write [OF w p])
  qed
  have new: "concat (map (doc_text cfg fsys')
               (case entry_name (docs_dir cfg) p of None \<Rightarrow> [] | Some n \<Rightarrow> [n])) = []"
    using p by (auto simp: is_doc_path_def doc_text_def split: option.splits)
  show ?thesis
  proof (cases "fs_exists fsys p")
    case True
    then show ?thesis by (simp only: corpus_of_def listdir_write [OF w] old if_True)
  next
    case False
    then show ?thesis
      by (simp only: corpus_of_def listdir_write [OF w] old new if_False map_append
            concat_append append_Nil2)
  qed
qed

lemma load_all_docs_corpus:
  assumes d: "\<not> is_doc_path cfg (data_file cfg)"
    and h: "fs_exists (fs w) (chat_history_file cfg) \<or> \<not> is_doc_path cfg (chat_history_file cfg)"
  shows "corpus_of cfg (fs (snd (load_all_docs cfg lib notify w))) = corpus_of cfg (fs w)"
proof -
  let ?w0 = "log_add (Info_docs_loading (docs_dir cfg))
               (w\<lparr>bot_data := (bot_data w)\<lparr>knowledge_base := []\<rparr>\<rparr>)"
  let ?r = "foldl (\<lambda>acc filename. load_doc cfg filename acc) (?w0, 0)
              (listdir (fs ?w0) (docs_dir cfg))"
  obtain w1 total where r: "?r = (w1, total)" by (cases ?r)
  have fs1: "fs w1 = fs w"
    using load_docs_loop [of cfg ?w0 0 "listdir (fs ?w0) (docs_dir cfg)"] r
    by (simp add: log_add_def)
  show ?thesis
  proof (cases "load_history cfg w1")
    case (Inl e)
    then show ?thesis using r fs1 by (simp add: load_all_docs_def Let_def)
  next
    case (Inr cw)
    obtain c w2 where cw: "cw = (c, w2)" by (cases cw)
    have c2: "corpus_of cfg (fs w2) = corpus_of cfg (fs w)"
      using load_history_fs [of cfg w1 c w2] Inr cw h fs1
      by (auto dest: corpus_of_write)
    have c3: "corpus_of cfg (fs (save_data cfg lib w2)) = corpus_of cfg (fs w2)"
      using save_data_fs [of cfg lib w2] d by (auto dest: corpus_of_write)
    show ?thesis
      using r Inr cw c2 c3 by (simp add: load_all_docs_def Let_def log_add_def)
  qed
qed

text \<open>
  Claim C4, as the code has it. Each call of \<^verbatim>\<open>load_all_docs\<close> discards the corpus and
  rebuilds it from the directory alone: the result is \<open>corpus_of\<close> of the file system
  the call starts from, whatever the corpus was before. Two calls in a row give the same
  corpus when the writes of the first call do not touch a \<^verbatim>\<open>.txt\<close> entry of the
  document directory: the data file is not such an entry, and the history file either
  exists already or is not such an entry.
\<close>

theorem reload_corpus_idempotent:
  assumes "\<not> is_doc_path cfg (data_file cfg)"
    and "fs_exists (fs w) (chat_history_file cfg) \<or> \<not> is_doc_path cfg (chat_history_file cfg)"
  shows "knowledge_base (bot_data (snd (load_all_docs cfg lib n2
            (snd (load_all_docs cfg lib n1 w)))))
         = knowledge_base (bot_data (snd (load_all_docs cfg lib n1 w)))
       \<and> knowledge_base (bot_data (snd (load_all_docs cfg lib n1 w))) = corpus_of cfg (fs w)"
  using load_all_docs_corpus [OF assms, of lib n1]
  by (simp add: load_all_docs_knowledge_base)


lemmas fs_defs = fs_read_def fs_exists_def getsize_def fs_write_def fs_append_def read_text_def
  dir_prefix_def path_join_def entry_name_def listdir_def List.map_filter_def
lemmas utf8_defs = utf8_encode_def utf8_encode_char_def utf8_decode_def utf8_decode_ignore_def is_cont_def

lemma cold_first_fs:
  "fs (snd (load_all_docs default_config sample_lib True cold_world))
   = \<lparr>files = [(ascii ''docs/weather.txt'', ''Sunny, 25C''),
                 (ascii ''docs/chat_history.txt'', utf8_encode history_header),
                 (ascii ''tg_single_group_data.json'', json_dump sample_lib
                    ((empty_bot_data default_config)\<lparr>knowledge_base :=
                        doc_header (ascii ''weather.txt'') @ ascii ''Sunny, 25C''\<rparr>))],
      readonly = [], linesep = [10]\<rparr>"
  by (simp add: load_all_docs_def cold_world_def default_config_def log_add_def Let_def
      load_doc_def load_history_def save_data_def fs_defs utf8_defs str_defs endswith_def
      MAX_SINGLE_FILE_SIZE_def char_of_eq_iff empty_bot_data_def doc_header_def
      encode_text_def)


lemmas corpus_eval = corpus_of_def doc_text_def doc_header_def default_config_def fs_defs utf8_defs
  str_defs endswith_def MAX_SINGLE_FILE_SIZE_def char_of_eq_iff history_header_def

lemma cold_corpus:
  "corpus_of default_config (fs cold_world) = doc_header (ascii ''weather.txt'') @ ascii ''Sunny, 25C''"
  by (simp add: cold_world_def corpus_eval)

lemma cold_second_corpus:
  "corpus_of default_config (fs (snd (load_all_docs default_config sample_lib True cold_world)))
   = doc_header (ascii ''weather.txt'') @ ascii ''Sunny, 25C''
     @ doc_header (ascii ''chat_history.txt'') @ py_strip history_header"
  unfolding cold_first_fs by (simp add: corpus_eval)

text \<open>
  The claim as stated fails on a first start with the default configuration: the
  history file is \<^verbatim>\<open>docs/chat_history.txt\<close>, the first call creates it after it has
  read the directory, and the second call reads it as a document.
\<close>

theorem reload_corpus_counterexample:
  "knowledge_base (bot_data (snd (load_all_docs default_config sample_lib True cold_world)))
     = doc_header (ascii ''weather.txt'') @ ascii ''Sunny, 25C''
   \<and> knowledge_base (bot_data (snd (load_all_docs default_config sample_lib True
         (snd (load_all_docs default_config sample_lib True cold_world)))))
     = doc_header (ascii ''weather.txt'') @ ascii ''Sunny, 25C''
       @ doc_header (ascii ''chat_history.txt'') @ py_strip history_header
   \<and> knowledge_base (bot_data (snd (load_all_docs default_config sample_lib True
         (snd (load_all_docs default_config sample_lib True cold_world)))))
     \<noteq> knowledge_base (bot_data (snd (load_all_docs default_config sample_lib True cold_world)))"
  by (simp add: load_all_docs_knowledge_base cold_corpus cold_second_corpus doc_header_def
        py_strip_def py_lstrip_def py_rstrip_def py_isspace_def history_header_def ascii_def)

theorem reload_corpus_idempotent_witness:
  "\<not> is_doc_path default_config (data_file default_config)
   \<and> (fs_exists (fs warm_world) (chat_history_file default_config)
        \<or> \<not> is_doc_path default_config (chat_history_file default_config))
   \<and> knowledge_base (bot_data (snd (load_all_docs default_config sample_lib True
         (snd (load_all_docs default_config sample_lib True warm_world)))))
     = knowledge_base (bot_data (snd (load_all_docs default_config sample_lib True warm_world)))
   \<and> knowledge_base (bot_data (snd (load_all_docs default_config sample_lib True warm_world)))
     = corpus_of default_config (fs warm_world)"
proof -
  have h1: "\<not> is_doc_path default_config (data_file default_config)"
    by (simp add: is_doc_path_def default_config_def entry_name_def dir_prefix_def ascii_def)
  have h2: "fs_exists (fs warm_world) (chat_history_file default_config)
            \<or> \<not> is_doc_path default_config (chat_history_file default_config)"
    by (simp add: warm_world_def fs_exists_def fs_read_def default_config_def ascii_def)
  from reload_corpus_idempotent [OF h1 h2] h1 h2 show ?thesis by blast
qed


lemma load_all_docs_context:
  "conversation_context (bot_data (snd (load_all_docs cfg lib notify w))) =
     (case read_text (fs w) (chat_history_file cfg) of
        Inl e \<Rightarrow> conversation_context (bot_data w)
      | Inr text \<Rightarrow>
          trim_context (max_context_msg cfg) (parse_history (py_readlines text) [] [] []))"
proof -
  let ?w0 = "log_add (Info_docs_loading (docs_dir cfg))
               (w\<lparr>bot_data := (bot_data w)\<lparr>knowledge_base := []\<rparr>\<rparr>)"
  let ?r = "foldl (\<lambda>acc filename. load_doc cfg filename acc) (?w0, 0)
              (listdir (fs ?w0) (docs_dir cfg))"
  obtain w1 total where r: "?r = (w1, total)" by (cases ?r)
  have w1: "fs w1 = fs w" "conversation_context (bot_data w1) = conversation_context (bot_data w)"
    using load_docs_loop [of cfg ?w0 0 "listdir (fs ?w0) (docs_dir cfg)"] r
    by (simp_all add: log_add_def)
  show ?thesis
  proof (cases "load_history cfg w1")
    case (Inl e)
    from load_history_raises [OF Inl] show ?thesis
      using r Inl w1 by (simp add: load_all_docs_def Let_def)
  next
    case (Inr cw)
    obtain c w2 where cw: "cw = (c, w2)" by (cases cw)
    from load_history_context [of cfg w1 c w2, unfolded w1] show ?thesis
      using r Inr cw by (simp add: load_all_docs_def Let_def log_add_def)
  qed
qed


lemmas handler_eval = handle_mention_def ensure_bot_username_def parse_mention_def str_defs Let_def
  answer_def response_content_def build_messages_def commit_def update_context_def save_data_def
  history_append_def rotate_history_def fs_defs log_add_def history_record_def tag_user_def
  tag_assistant_def MAX_CHAT_FILE_SIZE_def default_config_def utf8_defs char_of_eq_iff
  history_header_def empty_bot_data_def failure_reply_def call_model_def
  answer_failed_prefix_def encode_text_def

lemma chatted_context:
  "conversation_context (bot_data chatted_world)
   = [\<lparr>role = User, content = ascii ''weather?''\<rparr>,
      \<lparr>role = Assistant, content = ascii ''Sunny.'' @ [10] @ ascii ''25C.''\<rparr>]"
  by (simp add: chatted_world_def sample_update_def sample_env_def warm_world_def handler_eval)

lemma chatted_history:
  "fs_read (fs chatted_world) (chat_history_file default_config)
   = Some (utf8_encode (history_header
             @ history_record (ascii ''weather?'') (ascii ''Sunny.'' @ [10] @ ascii ''25C.'')))"
  by (simp add: chatted_world_def sample_update_def sample_env_def warm_world_def handler_eval)

lemma chatted_history_text:
  "read_text (fs chatted_world) (chat_history_file default_config)
   = Inr (history_header
          @ history_record (ascii ''weather?'') (ascii ''Sunny.'' @ [10] @ ascii ''25C.''))"
  unfolding read_text_def chatted_history
  by (simp add: history_header_def history_record_def tag_user_def tag_assistant_def ascii_def
        utf8_defs)

lemma default_max_context_msg: "max_context_msg default_config = 20"
  by (simp add: default_config_def)

lemma chatted_history_parsed:
  "trim_context 20
     (parse_history
        (py_readlines (history_header
           @ history_record (ascii ''weather?'') (ascii ''Sunny.'' @ [10] @ ascii ''25C.'')))
        [] [] [])
   = [\<lparr>role = User, content = ascii ''weather?''\<rparr>,
      \<lparr>role = Assistant, content = ascii ''Sunny.''\<rparr>]"
  by (simp add: history_header_def history_record_def tag_user_def tag_assistant_def str_defs
        trim_context_def)

text \<open>
  Claim C9, as the code has it. \<^verbatim>\<open>load_all_docs\<close> has no notion of an initial call: on
  every call it replaces the context by what it parses from the history file, trimmed,
  whenever that file exists and decodes; the context is left as it is only when the file
  is missing (it is then created) or cannot be read.
\<close>

theorem reload_rederives_context:
  "conversation_context (bot_data (snd (load_all_docs cfg lib notify w))) =
     (case read_text (fs w) (chat_history_file cfg) of
        Inl e \<Rightarrow> conversation_context (bot_data w)
      | Inr text \<Rightarrow>
          trim_context (max_context_msg cfg) (parse_history (py_readlines text) [] [] []))"
  by (rule load_all_docs_context)

text \<open>
  The claim as stated fails on a warm reload after an exchange whose reply has two
  lines: the history file holds the exchange, the reload reads the reply back line by
  line, and the context in memory loses the second line.
\<close>

theorem reload_context_counterexample:
  "fs_exists (fs chatted_world) (chat_history_file default_config)
   \<and> conversation_context (bot_data chatted_world)
       = [\<lparr>role = User, content = ascii ''weather?''\<rparr>,
          \<lparr>role = Assistant, content = ascii ''Sunny.'' @ [10] @ ascii ''25C.''\<rparr>]
   \<and> conversation_context
         (bot_data (snd (load_all_docs default_config sample_lib True chatted_world)))
       = [\<lparr>role = User, content = ascii ''weather?''\<rparr>,
          \<lparr>role = Assistant, content = ascii ''Sunny.''\<rparr>]"
proof -
  have present: "fs_exists (fs chatted_world) (chat_history_file default_config)"
    by (simp only: fs_exists_def chatted_history) simp
  have after: "conversation_context
         (bot_data (snd (load_all_docs default_config sample_lib True chatted_world)))
       = [\<lparr>role = User, content = ascii ''weather?''\<rparr>,
          \<lparr>role = Assistant, content = ascii ''Sunny.''\<rparr>]"
    by (simp only: load_all_docs_context chatted_history_text sum.case
          default_max_context_msg chatted_history_parsed)
  from present chatted_context after show ?thesis by blast
qed

section \<open>The history log\<close>

lemma utf8_encode_append: "utf8_encode (s @ t) = utf8_encode s @ utf8_encode t"
  by (simp add: utf8_encode_def)

lemma length_utf8_encode_Cons:
  "length (utf8_encode (c # s)) = length (utf8_encode_char c) + length (utf8_encode s)"
  by (simp add: utf8_encode_def)

lemma utf8_head_length:
  assumes "utf8_head bs = Some (c, n)"
  shows "length (utf8_encode_char c) \<le> n \<and> 1 \<le> n \<and> n \<le> length bs"
proof (cases bs)
  case Nil
  with assms show ?thesis by simp
next
  case (Cons b0 rest)
  show ?thesis
    using assms unfolding Cons
    by (auto simp: utf8_encode_char_def is_cont_def Let_def split: if_splits list.splits)
qed

lemma length_decode_ignore: "length (utf8_encode (decode_ignore bs)) \<le> length bs"
proof (induction bs rule: decode_ignore.induct)
  case 1
  show ?case by (simp add: utf8_encode_def)
next
  case (2 b bs)
  show ?case
  proof (cases "utf8_head (b # bs)")
    case None
    with 2(1) show ?thesis by simp
  next
    case (Some cn)
    obtain c n where cn: "cn = (c, n)" by (cases cn)
    from utf8_head_length [of "b # bs" c n] Some cn
    have n: "length (utf8_encode_char c) \<le> n" "1 \<le> n" "n \<le> Suc
        (length bs)" by simp_all
    from 2(2) [OF Some [unfolded cn] refl]
    have "length (utf8_encode (decode_ignore (drop (n - 1) bs))) \<le> length bs - (n - 1)"
      by simp
    with n show ?thesis
      using Some cn by (simp add: length_utf8_encode_Cons)
  qed
qed

lemma length_utf8_decode_ignore: "length (utf8_encode (utf8_decode_ignore bs)) \<le> length bs"
  using length_decode_ignore [of "map of_char bs"] by (simp add: utf8_decode_ignore_def)

lemma length_to_linesep_windows:
  "length (utf8_encode (to_linesep [13, 10] s)) \<le> 2 * length (utf8_encode s)"
proof (induction s)
  case Nil
  show ?case by (simp add: to_linesep_def utf8_encode_def)
next
  case (Cons c s)
  have "to_linesep [13, 10] (c # s) = (if c = 10 then [13, 10] else [c]) @ to_linesep [13, 10] s"
    by (simp add: to_linesep_def)
  moreover have "length (utf8_encode (if c = 10 then [13, 10] else [c]))
                 \<le> 2 * length (utf8_encode_char c)"
    by (simp add: utf8_encode_def utf8_encode_char_def)
  ultimately show ?case
    using Cons.IH by (simp add: utf8_encode_append length_utf8_encode_Cons)
qed

lemma rotation_marker_literal:
  "rotation_marker = ascii ''# ''
      @ [0x7FA4, 0x804A, 0x5BF9, 0x8BDD, 0x5386, 0x53F2, 0xFF08, 0x81EA, 0x52A8, 0x622A,
      0x65AD, 0xFF0C, 0x4EC5, 0x4FDD, 0x7559, 0x6700, 0x540E] @ ascii ''50MB'' @ [0xFF09, 10, 10]"
  by (simp add: rotation_marker_def)

lemma history_record_literal:
  "history_record q a = [0x3010, 0x7528, 0x6237, 0x3011] @ q @ [10]
      @ [0x3010, 0x52A9, 0x624B, 0x3011] @ a @ [10, 10]"
  by (simp add: history_record_def tag_user_def tag_assistant_def)

lemma rotation_marker_bytes:
  "length (utf8_encode (ascii ''# ''
      @ [0x7FA4, 0x804A, 0x5BF9, 0x8BDD, 0x5386, 0x53F2, 0xFF08, 0x81EA, 0x52A8, 0x622A,
      0x65AD, 0xFF0C, 0x4EC5, 0x4FDD, 0x7559, 0x6700, 0x540E] @ ascii ''50MB''
      @ [0xFF09, 10, 10])) = 62"
  "length (utf8_encode (to_linesep [13, 10] (ascii ''# ''
      @ [0x7FA4, 0x804A, 0x5BF9, 0x8BDD, 0x5386, 0x53F2, 0xFF08, 0x81EA, 0x52A8, 0x622A,
      0x65AD, 0xFF0C, 0x4EC5, 0x4FDD, 0x7559, 0x6700, 0x540E] @ ascii ''50MB''
      @ [0xFF09, 10, 10]))) = 64"
  by (simp_all add: to_linesep_def utf8_encode_def utf8_encode_char_def ascii_def)

lemma caps_literal:
  "MAX_CHAT_FILE_SIZE = 100 * 1024 * 1024" "TRIM_TO_SIZE = 50 * 1024 * 1024"
  by (simp_all add: MAX_CHAT_FILE_SIZE_def TRIM_TO_SIZE_def)

lemma fs_append_ok:
  "p \<notin> set (readonly fsys) \<Longrightarrow>
   fs_append fsys p bs =
     Inr (fsys\<lparr>files := AList.update p
            ((case fs_read fsys p of None \<Rightarrow> [] | Some old \<Rightarrow> old)
                @ bs) (files fsys)\<rparr>)"
  by (simp add: fs_append_def)

lemma history_append_rotates:
  assumes "fs_read fsys p = Some bs"
    and "length bs > MAX_CHAT_FILE_SIZE"
    and "p \<notin> set (readonly fsys)"
  shows "fst (history_append p q a fsys) = None"
    and "fs_read (snd (history_append p q a fsys)) p
         = Some (utf8_encode (to_linesep (linesep fsys) rotation_marker)
                 @ utf8_encode (to_linesep (linesep fsys)
                     (utf8_decode_ignore (drop (length bs - TRIM_TO_SIZE) bs)))
                 @ utf8_encode (to_linesep (linesep fsys) (history_record q a)))"
  using assms
  by (simp_all add: history_append_def rotate_history_def fs_write_ok fs_append_ok Let_def
        fs_read_def update_conv' utf8_encode_append to_linesep_append encode_text_def)

lemma history_rotation:
  assumes "fs_read fsys p = Some bs"
    and "length bs > 100 * 1024 * 1024"
    and "p \<notin> set (readonly fsys)"
  shows "fst (history_append p q a fsys) = None
       \<and> fs_read (snd (history_append p q a fsys)) p
           = Some (utf8_encode (to_linesep (linesep fsys)
                     (ascii ''# ''
                         @ [0x7FA4, 0x804A, 0x5BF9, 0x8BDD, 0x5386, 0x53F2, 0xFF08, 0x81EA,
                         0x52A8, 0x622A, 0x65AD, 0xFF0C, 0x4EC5, 0x4FDD, 0x7559, 0x6700,
                         0x540E] @ ascii ''50MB'' @ [0xFF09, 10, 10]))
                   @ utf8_encode (to_linesep (linesep fsys)
                       (utf8_decode_ignore (drop (length bs - 50 * 1024 * 1024) bs)))
                   @ utf8_encode (to_linesep (linesep fsys)
                       ([0x3010, 0x7528, 0x6237, 0x3011] @ q @ [10]
                           @ [0x3010, 0x52A9, 0x624B, 0x3011] @ a @ [10, 10])))
       \<and> (linesep fsys = [10] \<longrightarrow>
            getsize (snd (history_append p q a fsys)) p
            \<le> 50 * 1024 * 1024 + 62
               + length (utf8_encode
                   ([0x3010, 0x7528, 0x6237, 0x3011] @ q @ [10]
                       @ [0x3010, 0x52A9, 0x624B, 0x3011] @ a @ [10, 10])))
       \<and> (linesep fsys = [13, 10] \<longrightarrow>
            getsize (snd (history_append p q a fsys)) p
            \<le> 2 * (50 * 1024 * 1024) + 64
               + length (utf8_encode (to_linesep [13, 10]
                   ([0x3010, 0x7528, 0x6237, 0x3011] @ q @ [10]
                       @ [0x3010, 0x52A9, 0x624B, 0x3011] @ a @ [10, 10]))))"
proof -
  define m where "m = ascii ''# ''
      @ [0x7FA4, 0x804A, 0x5BF9, 0x8BDD, 0x5386, 0x53F2, 0xFF08, 0x81EA, 0x52A8, 0x622A,
      0x65AD, 0xFF0C, 0x4EC5, 0x4FDD, 0x7559, 0x6700, 0x540E] @ ascii ''50MB'' @ [0xFF09, 10, 10]"
  define r where "r = [0x3010, 0x7528, 0x6237, 0x3011] @ q @ [10]
      @ [0x3010, 0x52A9, 0x624B, 0x3011] @ a @ [10, 10]"
  let ?kept = "utf8_decode_ignore (drop (length bs - TRIM_TO_SIZE) bs)"
  have mb: "length (utf8_encode m) = 62" "length (utf8_encode (to_linesep [13, 10] m)) = 64"
    unfolding m_def by (rule rotation_marker_bytes)+
  have big: "length bs > MAX_CHAT_FILE_SIZE"
    using assms(2) by (simp add: MAX_CHAT_FILE_SIZE_def)
  have "length (utf8_encode ?kept) \<le> length (drop (length bs - TRIM_TO_SIZE) bs)"
    by (rule length_utf8_decode_ignore)
  also have "\<dots> \<le> TRIM_TO_SIZE" by simp
  finally have kept: "length (utf8_encode ?kept) \<le> TRIM_TO_SIZE" .
  have "length (utf8_encode (to_linesep [13, 10] ?kept)) \<le> 2 * length (utf8_encode ?kept)"
    by (rule length_to_linesep_windows)
  with kept have kept_windows: "length (utf8_encode (to_linesep [13,
      10] ?kept)) \<le> 2 * TRIM_TO_SIZE"
    by simp
  note res = history_append_rotates [OF assms(1) big assms(3), of q a,
               unfolded rotation_marker_literal history_record_literal, folded m_def r_def]
  have posix: "getsize (snd (history_append p q a fsys)) p
            \<le> TRIM_TO_SIZE + 62 + length (utf8_encode r)"
    if "linesep fsys = [10]"
    using res(2) kept that by (simp add: getsize_def mb)
  have windows: "getsize (snd (history_append p q a fsys)) p
            \<le> 2 * TRIM_TO_SIZE + 64 + length (utf8_encode (to_linesep [13, 10] r))"
    if "linesep fsys = [13, 10]"
    using res(2) kept_windows that by (simp add: getsize_def mb)
  from res posix windows
  have "fst (history_append p q a fsys) = None
       \<and> fs_read (snd (history_append p q a fsys)) p
           = Some (utf8_encode (to_linesep (linesep fsys) m)
                   @ utf8_encode (to_linesep (linesep fsys)
                       (utf8_decode_ignore (drop (length bs - TRIM_TO_SIZE) bs)))
                   @ utf8_encode (to_linesep (linesep fsys) r))
       \<and> (linesep fsys = [10] \<longrightarrow>
            getsize (snd (history_append p q a fsys)) p
            \<le> TRIM_TO_SIZE + 62 + length (utf8_encode r))
       \<and> (linesep fsys = [13, 10] \<longrightarrow>
            getsize (snd (history_append p q a fsys)) p
            \<le> 2 * TRIM_TO_SIZE + 64 + length (utf8_encode (to_linesep [13, 10] r)))"
    by blast
  then show ?thesis
    unfolding m_def r_def caps_literal .
qed

text \<open>
  Claim C5, as the code has it. When the history file is larger than the hard cap
  (100 MB) and can be written, one history append leaves a file that consists of the
  rotation marker, then what decodes of the last 50 MB of the old file, then the new
  record, each as a text-mode write puts it: the record is appended to the rotated
  file. Where \<^verbatim>\<open>os.linesep\<close> is \<^verbatim>\<open>\n\<close> the size
      is at most the soft cap plus the 62
  bytes of the marker plus the new record. Where it is \<^verbatim>\<open>\r\n\<close> every
      line feed of the
  kept text is written as two bytes: the size is at most twice the soft cap plus the 64
  bytes of the marker plus the new record as written.
\<close>

theorem history_rotation_bound:
  assumes "fs_read fsys p = Some bs"
    and "length bs > 100 * 1024 * 1024"
    and "p \<notin> set (readonly fsys)"
  shows "fst (history_append p q a fsys) = None
       \<and> fs_read (snd (history_append p q a fsys)) p
           = Some (utf8_encode (to_linesep (linesep fsys)
                     (ascii ''# ''
                         @ [0x7FA4, 0x804A, 0x5BF9, 0x8BDD, 0x5386, 0x53F2, 0xFF08, 0x81EA,
                         0x52A8, 0x622A, 0x65AD, 0xFF0C, 0x4EC5, 0x4FDD, 0x7559, 0x6700,
                         0x540E] @ ascii ''50MB'' @ [0xFF09, 10, 10]))
                   @ utf8_encode (to_linesep (linesep fsys)
                       (utf8_decode_ignore (drop (length bs - 50 * 1024 * 1024) bs)))
                   @ utf8_encode (to_linesep (linesep fsys)
                       ([0x3010, 0x7528, 0x6237, 0x3011] @ q @ [10]
                           @ [0x3010, 0x52A9, 0x624B, 0x3011] @ a @ [10, 10])))
       \<and> (linesep fsys = [10] \<longrightarrow>
            getsize (snd (history_append p q a fsys)) p
            \<le> 50 * 1024 * 1024 + 62
               + length (utf8_encode
                   ([0x3010, 0x7528, 0x6237, 0x3011] @ q @ [10]
                       @ [0x3010, 0x52A9, 0x624B, 0x3011] @ a @ [10, 10])))
       \<and> (linesep fsys = [13, 10] \<longrightarrow>
            getsize (snd (history_append p q a fsys)) p
            \<le> 2 * (50 * 1024 * 1024) + 64
               + length (utf8_encode (to_linesep [13, 10]
                   ([0x3010, 0x7528, 0x6237, 0x3011] @ q @ [10]
                       @ [0x3010, 0x52A9, 0x624B, 0x3011] @ a @ [10, 10]))))"
  using assms by (rule history_rotation)

lemma caps: "TRIM_TO_SIZE \<le> MAX_CHAT_FILE_SIZE"
  by (simp add: TRIM_TO_SIZE_def MAX_CHAT_FILE_SIZE_def)

lemma decode_ignore_ascii: "decode_ignore (replicate n 97) = replicate n 97"
  by (induction n) simp_all

lemma decode_ignore_newlines: "decode_ignore (replicate n 10) = replicate n 10"
  by (induction n) simp_all

lemma utf8_encode_ascii: "utf8_encode (replicate n 97) = replicate n (CHR ''a'')"
  by (induction n) (simp_all add: utf8_encode_def utf8_encode_char_def char_of_eq_iff)

lemma utf8_encode_newlines:
  "utf8_encode (to_linesep [13, 10] (replicate n 10)) = concat (replicate n [CHR 0x0D, CHR 0x0A])"
  by (induction n)
     (simp_all add: to_linesep_def utf8_encode_def utf8_encode_char_def char_of_eq_iff)

lemma length_concat_replicate: "length (concat (replicate n [x, y])) = 2 * n"
  by (induction n) simp_all

lemma big_history_read:
  "fs_read big_history_fs (ascii ''docs/chat_history.txt'')
   = Some (replicate (MAX_CHAT_FILE_SIZE + 1) (CHR ''a''))"
  "fs_read big_history_fs_windows (ascii ''docs/chat_history.txt'')
   = Some (replicate (MAX_CHAT_FILE_SIZE + 1) (CHR 0x0A))"
  by (simp_all add: big_history_fs_def big_history_fs_windows_def fs_read_def)

lemma big_history_platform:
  "linesep big_history_fs = [10]" "linesep big_history_fs_windows = [13, 10]"
  "ascii ''docs/chat_history.txt'' \<notin> set (readonly big_history_fs)"
  "ascii ''docs/chat_history.txt'' \<notin> set (readonly big_history_fs_windows)"
  by (simp_all add: big_history_fs_def big_history_fs_windows_def)

lemma big_history_large:
  "length (replicate (MAX_CHAT_FILE_SIZE + 1) c) > 100 * 1024 * 1024"
  by (simp add: MAX_CHAT_FILE_SIZE_def)

lemma big_history_kept:
  "utf8_encode (utf8_decode_ignore
     (drop (length (replicate (MAX_CHAT_FILE_SIZE + 1) (CHR ''a'')) - TRIM_TO_SIZE)
        (replicate (MAX_CHAT_FILE_SIZE + 1) (CHR ''a''))))
   = replicate TRIM_TO_SIZE (CHR ''a'')"
  "utf8_encode (to_linesep [13, 10] (utf8_decode_ignore
     (drop (length (replicate (MAX_CHAT_FILE_SIZE + 1) (CHR 0x0A)) - TRIM_TO_SIZE)
        (replicate (MAX_CHAT_FILE_SIZE + 1) (CHR 0x0A)))))
   = concat (replicate TRIM_TO_SIZE [CHR 0x0D, CHR 0x0A])"
proof -
  have "MAX_CHAT_FILE_SIZE + 1 - (MAX_CHAT_FILE_SIZE + 1 - TRIM_TO_SIZE) = TRIM_TO_SIZE"
    using caps by simp
  then show
    "utf8_encode (utf8_decode_ignore
       (drop (length (replicate (MAX_CHAT_FILE_SIZE + 1) (CHR ''a'')) - TRIM_TO_SIZE)
          (replicate (MAX_CHAT_FILE_SIZE + 1) (CHR ''a''))))
     = replicate TRIM_TO_SIZE (CHR ''a'')"
    "utf8_encode (to_linesep [13, 10] (utf8_decode_ignore
       (drop (length (replicate (MAX_CHAT_FILE_SIZE + 1) (CHR 0x0A)) - TRIM_TO_SIZE)
          (replicate (MAX_CHAT_FILE_SIZE + 1) (CHR 0x0A)))))
     = concat (replicate TRIM_TO_SIZE [CHR 0x0D, CHR 0x0A])"
    by (simp_all add: utf8_decode_ignore_def decode_ignore_ascii decode_ignore_newlines
          utf8_encode_ascii utf8_encode_newlines del: replicate_Suc)
qed

lemma sample_record_bytes:
  "length (utf8_encode ([0x3010, 0x7528, 0x6237, 0x3011] @ ascii ''hi'' @ [10]
      @ [0x3010, 0x52A9, 0x624B, 0x3011] @ ascii ''hello'' @ [10, 10])) = 34"
  "length (utf8_encode (to_linesep [13, 10] ([0x3010, 0x7528, 0x6237, 0x3011] @ ascii ''hi''
      @ [10] @ [0x3010, 0x52A9, 0x624B, 0x3011] @ ascii ''hello'' @ [10, 10]))) = 37"
  by (simp_all add: to_linesep_def utf8_encode_def utf8_encode_char_def ascii_def)

theorem history_rotation_bound_witness:
  "fs_read big_history_fs (ascii ''docs/chat_history.txt'')
     = Some (replicate (MAX_CHAT_FILE_SIZE + 1) (CHR ''a''))
   \<and> length (replicate (MAX_CHAT_FILE_SIZE + 1) (CHR ''a'')) > 100 * 1024 * 1024
   \<and> ascii ''docs/chat_history.txt'' \<notin> set (readonly big_history_fs)
   \<and> linesep big_history_fs = [10]
   \<and> fst (history_append (ascii ''docs/chat_history.txt'') (ascii ''hi'')
       (ascii ''hello'') big_history_fs) = None
   \<and> fs_read (snd (history_append (ascii ''docs/chat_history.txt'') (ascii ''hi'')
       (ascii ''hello'') big_history_fs)) (ascii ''docs/chat_history.txt'')
       = Some (utf8_encode (ascii ''# ''
           @ [0x7FA4, 0x804A, 0x5BF9, 0x8BDD, 0x5386, 0x53F2, 0xFF08, 0x81EA, 0x52A8, 0x622A,
           0x65AD, 0xFF0C, 0x4EC5, 0x4FDD, 0x7559, 0x6700, 0x540E] @ ascii ''50MB''
           @ [0xFF09, 10, 10])
               @ replicate TRIM_TO_SIZE (CHR ''a'')
               @ utf8_encode ([0x3010, 0x7528, 0x6237, 0x3011] @ ascii ''hi'' @ [10]
                   @ [0x3010, 0x52A9, 0x624B, 0x3011] @ ascii ''hello'' @ [10, 10]))
   \<and> getsize (snd (history_append (ascii ''docs/chat_history.txt'') (ascii ''hi'')
       (ascii ''hello'') big_history_fs)) (ascii ''docs/chat_history.txt'')
       \<le> 50 * 1024 * 1024 + 62 + 34
   \<and> fs_read big_history_fs_windows (ascii ''docs/chat_history.txt'')
     = Some (replicate (MAX_CHAT_FILE_SIZE + 1) (CHR 0x0A))
   \<and> length (replicate (MAX_CHAT_FILE_SIZE + 1) (CHR 0x0A)) > 100 * 1024 * 1024
   \<and> ascii ''docs/chat_history.txt'' \<notin> set (readonly big_history_fs_windows)
   \<and> linesep big_history_fs_windows = [13, 10]
   \<and> fst (history_append (ascii ''docs/chat_history.txt'') (ascii ''hi'')
       (ascii ''hello'') big_history_fs_windows) = None
   \<and> fs_read (snd (history_append (ascii ''docs/chat_history.txt'') (ascii ''hi'')
       (ascii ''hello'') big_history_fs_windows)) (ascii ''docs/chat_history.txt'')
       = Some (utf8_encode (to_linesep [13, 10] (ascii ''# ''
           @ [0x7FA4, 0x804A, 0x5BF9, 0x8BDD, 0x5386, 0x53F2, 0xFF08, 0x81EA, 0x52A8, 0x622A,
           0x65AD, 0xFF0C, 0x4EC5, 0x4FDD, 0x7559, 0x6700, 0x540E] @ ascii ''50MB''
           @ [0xFF09, 10, 10]))
               @ concat (replicate TRIM_TO_SIZE [CHR 0x0D, CHR 0x0A])
               @ utf8_encode (to_linesep [13, 10] ([0x3010, 0x7528, 0x6237, 0x3011]
                   @ ascii ''hi'' @ [10] @ [0x3010, 0x52A9, 0x624B, 0x3011] @ ascii ''hello''
                   @ [10, 10])))
   \<and> getsize (snd (history_append (ascii ''docs/chat_history.txt'') (ascii ''hi'')
       (ascii ''hello'') big_history_fs_windows)) (ascii ''docs/chat_history.txt'')
       \<le> 2 * (50 * 1024 * 1024) + 64 + 37"
proof -
  note posix = history_rotation_bound
         [OF big_history_read(1) big_history_large big_history_platform(3),
          of "ascii ''hi''" "ascii ''hello''"]
  note windows = history_rotation_bound
         [OF big_history_read(2) big_history_large big_history_platform(4),
          of "ascii ''hi''" "ascii ''hello''"]
  note p1 = posix [THEN conjunct1]
  note p2 = posix [THEN conjunct2, THEN conjunct1, folded caps_literal(2),
                   unfolded big_history_platform(1) to_linesep_posix big_history_kept(1)]
  note p3 = posix [THEN conjunct2, THEN conjunct2, THEN conjunct1, rule_format,
                   OF big_history_platform(1), unfolded sample_record_bytes]
  note w1 = windows [THEN conjunct1]
  note w2 = windows [THEN conjunct2, THEN conjunct1, folded caps_literal(2),
                     unfolded big_history_platform(2) big_history_kept(2)]
  note w3 = windows [THEN conjunct2, THEN conjunct2, THEN conjunct2, rule_format,
                     OF big_history_platform(2), unfolded sample_record_bytes]
  show ?thesis
    by (intro conjI big_history_read big_history_large big_history_platform p1 p2 p3 w1 w2 w3)
qed

text \<open>
  The claim as stated leaves the marker out of the bound: a history file of ASCII text
  one byte over the hard cap is, after the append, 62 bytes larger than the soft cap
  plus the new record. Where text-mode writes translate line feeds the soft cap itself
  does not hold: on Windows a history file of bare line feeds comes out at twice the
  soft cap plus the marker and the record.
\<close>

theorem history_rotation_counterexample:
  "getsize big_history_fs (ascii ''docs/chat_history.txt'') = 100 * 1024 * 1024 + 1
   \<and> length (utf8_encode ([0x3010, 0x7528, 0x6237, 0x3011] @ ascii ''hi'' @ [10]
       @ [0x3010, 0x52A9, 0x624B, 0x3011] @ ascii ''hello'' @ [10, 10])) = 34
   \<and> getsize (snd (history_append (ascii ''docs/chat_history.txt'') (ascii ''hi'')
       (ascii ''hello'') big_history_fs)) (ascii ''docs/chat_history.txt'')
       = 50 * 1024 * 1024 + 62 + 34
   \<and> \<not> getsize (snd (history_append (ascii ''docs/chat_history.txt'') (ascii ''hi'')
       (ascii ''hello'') big_history_fs)) (ascii ''docs/chat_history.txt'')
         \<le> 50 * 1024 * 1024 + 34
   \<and> getsize big_history_fs_windows (ascii ''docs/chat_history.txt'') = 100 * 1024 * 1024 + 1
   \<and> length (utf8_encode (to_linesep [13, 10] ([0x3010, 0x7528, 0x6237, 0x3011]
       @ ascii ''hi'' @ [10] @ [0x3010, 0x52A9, 0x624B, 0x3011] @ ascii ''hello''
       @ [10, 10]))) = 37
   \<and> getsize (snd (history_append (ascii ''docs/chat_history.txt'') (ascii ''hi'')
       (ascii ''hello'') big_history_fs_windows)) (ascii ''docs/chat_history.txt'')
       = 2 * (50 * 1024 * 1024) + 64 + 37
   \<and> \<not> getsize (snd (history_append (ascii ''docs/chat_history.txt'') (ascii ''hi'')
       (ascii ''hello'') big_history_fs_windows)) (ascii ''docs/chat_history.txt'')
         \<le> 50 * 1024 * 1024 + 62 + 37"
proof -
  have large: "length (replicate (MAX_CHAT_FILE_SIZE + 1) c) > MAX_CHAT_FILE_SIZE" for c :: char
    by simp
  have size0: "getsize big_history_fs (ascii ''docs/chat_history.txt'') = 100 * 1024 * 1024 + 1"
    "getsize big_history_fs_windows (ascii ''docs/chat_history.txt'') = 100 * 1024 * 1024 + 1"
    by (simp_all add: getsize_def big_history_read MAX_CHAT_FILE_SIZE_def)
  note posix = history_append_rotates(2)
         [OF big_history_read(1) large big_history_platform(3),
             of "ascii ''hi''" "ascii ''hello''",
          unfolded rotation_marker_literal history_record_literal
            big_history_platform(1) to_linesep_posix big_history_kept(1)]
  note windows = history_append_rotates(2)
         [OF big_history_read(2) large big_history_platform(4),
             of "ascii ''hi''" "ascii ''hello''",
          unfolded rotation_marker_literal history_record_literal
            big_history_platform(2) big_history_kept(2)]
  have size1: "getsize (snd (history_append (ascii ''docs/chat_history.txt'') (ascii ''hi'')
      (ascii ''hello'') big_history_fs)) (ascii ''docs/chat_history.txt'')
               = 50 * 1024 * 1024 + 62 + 34"
    unfolding getsize_def posix
    by (simp only: option.case length_append length_replicate rotation_marker_bytes
          sample_record_bytes)
       (simp add: TRIM_TO_SIZE_def)
  have size2: "getsize (snd (history_append (ascii ''docs/chat_history.txt'') (ascii ''hi'')
      (ascii ''hello'') big_history_fs_windows)) (ascii ''docs/chat_history.txt'')
               = 2 * (50 * 1024 * 1024) + 64 + 37"
    unfolding getsize_def windows
    by (simp only: option.case length_append length_concat_replicate rotation_marker_bytes
          sample_record_bytes)
       (simp add: TRIM_TO_SIZE_def)
  show ?thesis
    unfolding size1 size2 using size0 sample_record_bytes by simp
qed

section \<open>The message handler\<close>

subsection \<open>Reaching the model call\<close>

lemma ensure_bot_username_frame:
  "bot_data (snd (ensure_bot_username env w)) = bot_data w"
  "fs (snd (ensure_bot_username env w)) = fs w"
  by (simp_all add: ensure_bot_username_def Let_def log_add_def split: option.splits)

lemma failure_reply_frame:
  "bot_data (snd (failure_reply cfg e w)) = bot_data w"
  "fs (snd (failure_reply cfg e w)) = fs w"
  "BOT_USERNAME (snd (failure_reply cfg e w)) = BOT_USERNAME w"
  by (simp_all add: failure_reply_def log_add_def split: exn.splits)

lemma handle_mention_answers:
  assumes "message_text upd = Some text" and "text \<noteq> []"
    and "parse_mention text (entities upd) (fst (ensure_bot_username env w)) = (True, q)"
    and "q \<noteq> []"
  shows "handle_mention cfg lib env upd w = answer cfg lib env q (snd (ensure_bot_username env w))"
proof -
  obtain b w1 where e: "ensure_bot_username env w = (b, w1)"
    by (cases "ensure_bot_username env w")
  with assms show ?thesis by (simp add: handle_mention_def Let_def)
qed

lemma sample_update_text:
  "message_text sample_update = Some (ascii ''@bot weather?'')"
  "ascii ''@bot weather?'' \<noteq> []" "ascii ''weather?'' \<noteq> []"
  by (simp_all add: sample_update_def)

lemma warm_username:
  "fst (ensure_bot_username (sample_env\<lparr>client := c\<rparr>) warm_world) = ascii ''bot''"
  "logged (snd (ensure_bot_username (sample_env\<lparr>client := c\<rparr>) warm_world))
   = [Info_bot_username (ascii ''bot'')]"
  by (simp_all add: ensure_bot_username_def sample_env_def warm_world_def Let_def log_add_def
        py_lower_def lower_char_def ascii_def)

lemma sample_update_parsed:
  "parse_mention (ascii ''@bot weather?'') (entities sample_update) (ascii ''bot'')
   = (True, ascii ''weather?'')"
  by (simp add: sample_update_def parse_mention_def str_defs)

subsection \<open>A completed exchange\<close>

lemma history_append_readonly:
  assumes "p \<in> set (readonly fsys)"
  shows "history_append p q a fsys = (Some OSError, fsys)"
  using assms
  by (simp add: history_append_def rotate_history_def fs_write_def fs_append_def Let_def
        split: option.splits)

lemma history_append_writable:
  assumes "p \<notin> set (readonly fsys)"
  shows "fst (history_append p q a fsys) = None"
    and "fs_read (snd (history_append p q a fsys)) p
         = Some (rotated (linesep fsys) (fs_read fsys p)
                 @ utf8_encode (to_linesep (linesep fsys)
                     ([0x3010, 0x7528, 0x6237, 0x3011] @ q @ [10]
                      @ [0x3010, 0x52A9, 0x624B, 0x3011] @ a @ [10, 10])))"
    and "p' \<noteq> p \<Longrightarrow> fs_read (snd (history_append p q a fsys)) p' = fs_read fsys p'"
  using assms
  by (simp_all add: history_append_def rotate_history_def fs_write_ok fs_append_ok Let_def
        fs_read_def update_conv' rotated_def encode_text_def rotation_marker_literal
        history_record_literal caps_literal split: option.splits)

lemma commit_bot_data:
  "bot_data (snd (commit cfg lib q a w))
   = (bot_data w)\<lparr>conversation_context :=
        update_context (max_context_msg cfg) q a (conversation_context (bot_data w))\<rparr>"
  by (simp add: commit_def Let_def split: prod.splits)

lemma update_context_literal:
  "update_context maxlen q a ctx
   = (if int (length (ctx @ [\<lparr>role = User, content = q\<rparr>, \<lparr>role = Assistant, content = a\<rparr>]))
         > maxlen
      then py_slice_from (- maxlen)
             (ctx @ [\<lparr>role = User, content = q\<rparr>, \<lparr>role = Assistant, content = a\<rparr>])
      else ctx @ [\<lparr>role = User, content = q\<rparr>, \<lparr>role = Assistant, content = a\<rparr>])"
  by (simp add: update_context_def Let_def)

lemma save_data_files:
  "fs_read (fs (save_data cfg lib w)) p
   = (if p = data_file cfg \<and> data_file cfg \<notin> set (readonly (fs w))
      then Some (json_dump lib (bot_data w)) else fs_read (fs w) p)"
  by (simp add: save_data_def fs_write_def log_add_def fs_read_def update_conv')

lemma save_data_logged:
  "logged (save_data cfg lib w)
   = logged w @ [if data_file cfg \<in> set (readonly (fs w))
                 then Error_save_failed OSError (data_file cfg)
                 else Debug_data_saved (data_file cfg)]"
  by (simp add: save_data_def fs_write_def log_add_def)

lemma history_append_result:
  "fst (history_append h q a fsys) = (if h \<in> set (readonly fsys) then Some OSError else None)"
  "fs_read (snd (history_append h q a fsys)) p
   = (if p = h \<and> h \<notin> set (readonly fsys)
      then Some (rotated (linesep fsys) (fs_read fsys h)
                 @ utf8_encode (to_linesep (linesep fsys)
                     ([0x3010, 0x7528, 0x6237, 0x3011] @ q @ [10]
                      @ [0x3010, 0x52A9, 0x624B, 0x3011] @ a @ [10, 10])))
      else fs_read fsys p)"
proof -
  show "fst (history_append h q a fsys) = (if h \<in> set (readonly fsys) then Some OSError else None)"
    using history_append_readonly [of h fsys q a] history_append_writable(1) [of h fsys q a]
    by (cases "h \<in> set (readonly fsys)") simp_all
  show "fs_read (snd (history_append h q a fsys)) p
   = (if p = h \<and> h \<notin> set (readonly fsys)
      then Some (rotated (linesep fsys) (fs_read fsys h)
                 @ utf8_encode (to_linesep (linesep fsys)
                     ([0x3010, 0x7528, 0x6237, 0x3011] @ q @ [10]
                      @ [0x3010, 0x52A9, 0x624B, 0x3011] @ a @ [10, 10])))
      else fs_read fsys p)"
  proof (cases "h \<in> set (readonly fsys)")
    case True
    from history_append_readonly [OF True, of q a] True show ?thesis by simp
  next
    case False
    show ?thesis
    proof (cases "p = h")
      case True
      with history_append_writable(2) [OF False, of q a] False show ?thesis
        by (simp only: simp_thms if_True)
    next
      case ne: False
      with history_append_writable(3) [OF False, of p q a] show ?thesis by simp
    qed
  qed
qed

lemma commit_result:
  "fst (commit cfg lib q a w)
   = (if chat_history_file cfg \<in> set (readonly (fs w)) then Some OSError else None)"
  "logged (snd (commit cfg lib q a w))
   = logged w @ [if data_file cfg \<in> set (readonly (fs w))
                 then Error_save_failed OSError (data_file cfg)
                 else Debug_data_saved (data_file cfg)]"
  "fs_read (fs (snd (commit cfg lib q a w))) p
   = (if p = chat_history_file cfg \<and> chat_history_file cfg \<notin> set (readonly (fs w))
      then Some (rotated (linesep (fs w))
                   (if chat_history_file cfg = data_file cfg
                       \<and> data_file cfg \<notin> set (readonly (fs w))
                    then Some (json_dump lib ((bot_data w)\<lparr>conversation_context :=
                           update_context (max_context_msg cfg) q a
                             (conversation_context (bot_data w))\<rparr>))
                    else fs_read (fs w) (chat_history_file cfg))
                 @ utf8_encode (to_linesep (linesep (fs w))
                     ([0x3010, 0x7528, 0x6237, 0x3011] @ q @ [10]
                      @ [0x3010, 0x52A9, 0x624B, 0x3011] @ a @ [10, 10])))
      else if p = data_file cfg \<and> data_file cfg \<notin> set (readonly (fs w))
      then Some (json_dump lib ((bot_data w)\<lparr>conversation_context :=
             update_context (max_context_msg cfg) q a (conversation_context (bot_data w))\<rparr>))
      else fs_read (fs w) p)"
proof -
  let ?w1 = "w\<lparr>bot_data := (bot_data w)\<lparr>conversation_context :=
                   update_context (max_context_msg cfg) q a
                     (conversation_context (bot_data w))\<rparr>\<rparr>"
  let ?w2 = "save_data cfg lib ?w1"
  let ?h = "history_append (chat_history_file cfg) q a (fs ?w2)"
  have c: "commit cfg lib q a w = (fst ?h, ?w2\<lparr>fs := snd ?h\<rparr>)"
    by (simp add: commit_def Let_def split: prod.splits)
  have ro: "readonly (fs ?w2) = readonly (fs w)" by simp
  have sep: "linesep (fs ?w2) = linesep (fs w)" by simp
  have files: "fs_read (fs ?w2) p'
     = (if p' = data_file cfg \<and> data_file cfg \<notin> set (readonly (fs w))
        then Some (json_dump lib ((bot_data w)\<lparr>conversation_context :=
               update_context (max_context_msg cfg) q a (conversation_context (bot_data w))\<rparr>))
        else fs_read (fs w) p')" for p'
    using save_data_files [of cfg lib ?w1 p'] by simp
  show "fst (commit cfg lib q a w)
   = (if chat_history_file cfg \<in> set (readonly (fs w)) then Some OSError else None)"
    by (simp only: c fst_conv history_append_result(1) ro)
  show "logged (snd (commit cfg lib q a w))
   = logged w @ [if data_file cfg \<in> set (readonly (fs w))
                 then Error_save_failed OSError (data_file cfg)
                 else Debug_data_saved (data_file cfg)]"
    using save_data_logged [of cfg lib ?w1] by (simp add: c)
  have "fs_read (fs (snd (commit cfg lib q a w))) p = fs_read (snd ?h) p"
    by (simp add: c)
  also have "\<dots> = (if p = chat_history_file cfg
                        \<and> chat_history_file cfg \<notin> set (readonly (fs w))
      then Some (rotated (linesep (fs w)) (fs_read (fs ?w2) (chat_history_file cfg))
                 @ utf8_encode (to_linesep (linesep (fs w))
                     ([0x3010, 0x7528, 0x6237, 0x3011] @ q @ [10]
                      @ [0x3010, 0x52A9, 0x624B, 0x3011] @ a @ [10, 10])))
      else fs_read (fs ?w2) p)"
    by (simp only: history_append_result(2) ro sep)
  finally show "fs_read (fs (snd (commit cfg lib q a w))) p
   = (if p = chat_history_file cfg \<and> chat_history_file cfg \<notin> set (readonly (fs w))
      then Some (rotated (linesep (fs w))
                   (if chat_history_file cfg = data_file cfg
                       \<and> data_file cfg \<notin> set (readonly (fs w))
                    then Some (json_dump lib ((bot_data w)\<lparr>conversation_context :=
                           update_context (max_context_msg cfg) q a
                             (conversation_context (bot_data w))\<rparr>))
                    else fs_read (fs w) (chat_history_file cfg))
                 @ utf8_encode (to_linesep (linesep (fs w))
                     ([0x3010, 0x7528, 0x6237, 0x3011] @ q @ [10]
                      @ [0x3010, 0x52A9, 0x624B, 0x3011] @ a @ [10, 10])))
      else if p = data_file cfg \<and> data_file cfg \<notin> set (readonly (fs w))
      then Some (json_dump lib ((bot_data w)\<lparr>conversation_context :=
             update_context (max_context_msg cfg) q a (conversation_context (bot_data w))\<rparr>))
      else fs_read (fs w) p)"
    by (simp only: files)
qed

lemma answer_call_succeeds:
  assumes "client env = Some create"
    and "call_model create (model cfg) (build_messages (bot_data w) q) = Inr a"
  shows "answer cfg lib env q w =
           (case fst (commit cfg lib q a w) of
              Some e \<Rightarrow> failure_reply cfg e (snd (commit cfg lib q a w))
            | None \<Rightarrow> (Some a, log_add (Info_mention_answered q) (snd (commit cfg lib q a w))))"
  using assms by (simp add: answer_def split: prod.splits option.splits)

lemma handle_mention_exchange:
  assumes "message_text upd = Some text" and "text \<noteq> []"
    and "parse_mention text (entities upd) (fst (ensure_bot_username env w)) = (True, q)"
    and "q \<noteq> []"
    and "client env = Some create"
    and "call_model create (model cfg) (build_messages (bot_data w) q) = Inr a"
  shows "(let appended = conversation_context (bot_data w)
                       @ [\<lparr>role = User, content = q\<rparr>, \<lparr>role = Assistant, content = a\<rparr>];
         new_state = (bot_data w)\<lparr>conversation_context :=
                       if int (length appended) > max_context_msg cfg
                       then py_slice_from (- max_context_msg cfg) appended else appended\<rparr>;
         entry = [0x3010, 0x7528, 0x6237, 0x3011] @ q @ [10]
                 @ [0x3010, 0x52A9, 0x624B, 0x3011] @ a @ [10, 10];
         data_locked = (data_file cfg \<in> set (readonly (fs w)));
         history_locked = (chat_history_file cfg \<in> set (readonly (fs w)));
         after_save = (\<lambda>p. if p = data_file cfg \<and> \<not> data_locked
                            then Some (json_dump lib new_state) else fs_read (fs w) p);
         result = handle_mention cfg lib env upd w
     in bot_data (snd result) = new_state
      \<and> (\<forall>p. fs_read (fs (snd result)) p
             = (if p = chat_history_file cfg \<and> \<not> history_locked
                then Some (rotated (linesep (fs w)) (after_save (chat_history_file cfg))
                           @ utf8_encode (to_linesep (linesep (fs w)) entry))
                else after_save p))
      \<and> fst result = Some (if history_locked then error_tip cfg else a)
      \<and> logged (snd result)
          = logged (snd (ensure_bot_username env w))
            @ [if data_locked then Error_save_failed OSError (data_file cfg)
               else Debug_data_saved (data_file cfg),
               if history_locked then Error_mention_other OSError
               else Info_mention_answered q])"
proof -
  let ?w1 = "snd (ensure_bot_username env w)"
  let ?c = "commit cfg lib q a ?w1"
  have w1: "bot_data ?w1 = bot_data w" "fs ?w1 = fs w"
    by (simp_all add: ensure_bot_username_frame)
  have call: "call_model create (model cfg) (build_messages (bot_data ?w1) q) = Inr a"
    using assms(6) by (simp add: w1)
  have hm: "handle_mention cfg lib env upd w =
              (case fst ?c of
                 Some e \<Rightarrow> failure_reply cfg e (snd ?c)
               | None \<Rightarrow> (Some a, log_add (Info_mention_answered q) (snd ?c)))"
    using handle_mention_answers [OF assms(1-4)] answer_call_succeeds [OF assms(5) call]
    by simp
  note res = commit_result [where lib = lib and q = q and a = a and w = ?w1 and cfg = cfg,
               unfolded w1 update_context_literal]
  note bd = commit_bot_data [of cfg lib q a ?w1, unfolded w1 update_context_literal]
  show ?thesis
  proof (cases "chat_history_file cfg \<in> set (readonly (fs w))")
    case True
    from res(1) True have "fst ?c = Some OSError" by simp
    then have h: "handle_mention cfg lib env upd w = failure_reply cfg OSError (snd ?c)"
      by (simp add: hm)
    have "fst (handle_mention cfg lib env upd w) = Some (error_tip cfg)"
      "logged (snd (handle_mention cfg lib env upd w))
       = logged (snd ?c) @ [Error_mention_other OSError]"
      unfolding h by (simp_all add: failure_reply_def log_add_def)
    then show ?thesis
      using True res(2) res(3) bd
      by (simp add: h failure_reply_frame Let_def)
  next
    case False
    from res(1) False have "fst ?c = None" by simp
    then have h: "handle_mention cfg lib env upd w
               = (Some a, log_add (Info_mention_answered q) (snd ?c))"
      by (simp add: hm)
    show ?thesis
      using False res(2) res(3) bd by (simp add: h log_add_def Let_def)
  qed
qed

text \<open>
  Claim C7, as the code has it. When a message addressed to the bot gets a reply from
  the model: the context in memory is the old one with the question and the reply
  appended, trimmed to its last \<^verbatim>\<open>max_context_msg\<close> entries. \<^verbatim>\<open>save_data\<close> then writes
  exactly that state to the data file, so the append came before the save; where the
  data file cannot be written it logs the error and the exchange goes on. The log
  append comes last: where the history file can be written it becomes what the save
  left at its path, rotated if that was too large, followed by the record of the
  exchange, and the user gets the reply; where it cannot, the state is persisted all the
  same, the history file is as it was and the user gets the error tip. No other file
  changes, and the log shows the save before the outcome of the exchange.
\<close>

theorem exchange_commit_order:
  assumes "message_text upd = Some text" and "text \<noteq> []"
    and "parse_mention text (entities upd) (fst (ensure_bot_username env w)) = (True, q)"
    and "q \<noteq> []"
    and "client env = Some create"
    and "call_model create (model cfg) (build_messages (bot_data w) q) = Inr a"
  shows "(let appended = conversation_context (bot_data w)
                       @ [\<lparr>role = User, content = q\<rparr>, \<lparr>role = Assistant, content = a\<rparr>];
         new_state = (bot_data w)\<lparr>conversation_context :=
                       if int (length appended) > max_context_msg cfg
                       then py_slice_from (- max_context_msg cfg) appended else appended\<rparr>;
         entry = [0x3010, 0x7528, 0x6237, 0x3011] @ q @ [10]
                 @ [0x3010, 0x52A9, 0x624B, 0x3011] @ a @ [10, 10];
         data_locked = (data_file cfg \<in> set (readonly (fs w)));
         history_locked = (chat_history_file cfg \<in> set (readonly (fs w)));
         after_save = (\<lambda>p. if p = data_file cfg \<and> \<not> data_locked
                            then Some (json_dump lib new_state) else fs_read (fs w) p);
         result = handle_mention cfg lib env upd w
     in bot_data (snd result) = new_state
      \<and> (\<forall>p. fs_read (fs (snd result)) p
             = (if p = chat_history_file cfg \<and> \<not> history_locked
                then Some (rotated (linesep (fs w)) (after_save (chat_history_file cfg))
                           @ utf8_encode (to_linesep (linesep (fs w)) entry))
                else after_save p))
      \<and> fst result = Some (if history_locked then error_tip cfg else a)
      \<and> logged (snd result)
          = logged (snd (ensure_bot_username env w))
            @ [if data_locked then Error_save_failed OSError (data_file cfg)
               else Debug_data_saved (data_file cfg),
               if history_locked then Error_mention_other OSError
               else Info_mention_answered q])"
  using assms by (rule handle_mention_exchange)

lemma default_paths:
  "data_file default_config = ascii ''tg_single_group_data.json''"
  "chat_history_file default_config = ascii ''docs/chat_history.txt''"
  "data_file default_config \<noteq> chat_history_file default_config"
  "max_context_msg default_config = 20"
  by (simp_all add: default_config_def ascii_def)

lemma sample_reply:
  "call_model (\<lambda>m msgs. Response [Some (ascii ''Sunny.'' @ [10] @ ascii ''25C.'')])
     (model default_config) msgs
   = Inr (ascii ''Sunny.'' @ [10] @ ascii ''25C.'')"
  by (simp add: call_model_def response_content_def str_defs)

lemma locked_username:
  "fst (ensure_bot_username sample_env locked_history_world) = ascii ''bot''"
  "logged (snd (ensure_bot_username sample_env locked_history_world))
   = [Info_bot_username (ascii ''bot'')]"
  by (simp_all add: ensure_bot_username_def sample_env_def locked_history_world_def
        warm_world_def Let_def py_lower_def lower_char_def ascii_def log_add_def)

lemma warm_files:
  "fs_read (fs warm_world) (ascii ''docs/chat_history.txt'') = Some (utf8_encode history_header)"
  "fs_read (fs warm_world) (ascii ''tg_single_group_data.json'') = None"
  "readonly (fs warm_world) = []"
  "linesep (fs warm_world) = [10]"
  "fs_read (fs locked_history_world) (ascii ''docs/chat_history.txt'')
   = Some (utf8_encode history_header)"
  "fs_read (fs locked_history_world) (ascii ''tg_single_group_data.json'') = None"
  "readonly (fs locked_history_world) = [ascii ''docs/chat_history.txt'']"
  "linesep (fs locked_history_world) = [10]"
  "conversation_context (bot_data warm_world) = []"
  "bot_data locked_history_world = bot_data warm_world"
  by (simp_all add: warm_world_def locked_history_world_def fs_read_def ascii_def
        empty_bot_data_def)

lemma rotated_small:
  "rotated sep (Some (utf8_encode history_header)) = utf8_encode history_header"
  by (simp add: rotated_def history_header_def utf8_encode_def utf8_encode_char_def ascii_def)

lemma paths_differ:
  "ascii ''tg_single_group_data.json'' \<noteq> ascii ''docs/chat_history.txt''"
  "ascii ''docs/chat_history.txt'' \<noteq> ascii ''tg_single_group_data.json''"
  "ascii ''tg_single_group_data.json'' \<notin> set [ascii ''docs/chat_history.txt'']"
  by (simp_all add: ascii_def)

theorem exchange_commit_order_witness:
  "client sample_env = Some (\<lambda>m msgs. Response [Some (ascii ''Sunny.'' @ [10] @ ascii ''25C.'')])
   \<and> call_model (\<lambda>m msgs. Response [Some (ascii ''Sunny.'' @ [10] @ ascii ''25C.'')])
        (model default_config) (build_messages (bot_data warm_world) (ascii ''weather?''))
       = Inr (ascii ''Sunny.'' @ [10] @ ascii ''25C.'')
   \<and> bot_data (snd (handle_mention default_config sample_lib sample_env sample_update warm_world))
       = (bot_data warm_world)\<lparr>conversation_context :=
            [\<lparr>role = User, content = ascii ''weather?''\<rparr>,
             \<lparr>role = Assistant, content = ascii ''Sunny.'' @ [10] @ ascii ''25C.''\<rparr>]\<rparr>
   \<and> fs_read (fs (snd (handle_mention default_config sample_lib sample_env sample_update
                         warm_world))) (ascii ''tg_single_group_data.json'')
       = Some (json_dump sample_lib ((bot_data warm_world)\<lparr>conversation_context :=
            [\<lparr>role = User, content = ascii ''weather?''\<rparr>,
             \<lparr>role = Assistant, content = ascii ''Sunny.'' @ [10] @ ascii ''25C.''\<rparr>]\<rparr>))
   \<and> fs_read (fs (snd (handle_mention default_config sample_lib sample_env sample_update
                         warm_world))) (ascii ''docs/chat_history.txt'')
       = Some (utf8_encode history_header
               @ utf8_encode ([0x3010, 0x7528, 0x6237, 0x3011] @ ascii ''weather?'' @ [10]
                              @ [0x3010, 0x52A9, 0x624B, 0x3011] @ (ascii ''Sunny.'' @ [10] @ ascii ''25C.'') @ [10, 10]))
   \<and> fst (handle_mention default_config sample_lib sample_env sample_update warm_world)
       = Some (ascii ''Sunny.'' @ [10] @ ascii ''25C.'')
   \<and> logged (snd (handle_mention default_config sample_lib sample_env sample_update warm_world))
       = [Info_bot_username (ascii ''bot''),
          Debug_data_saved (ascii ''tg_single_group_data.json''),
          Info_mention_answered (ascii ''weather?'')]
   \<and> bot_data (snd (handle_mention default_config sample_lib sample_env sample_update
                       locked_history_world))
       = (bot_data warm_world)\<lparr>conversation_context :=
            [\<lparr>role = User, content = ascii ''weather?''\<rparr>,
             \<lparr>role = Assistant, content = ascii ''Sunny.'' @ [10] @ ascii ''25C.''\<rparr>]\<rparr>
   \<and> fs_read (fs (snd (handle_mention default_config sample_lib sample_env sample_update
                         locked_history_world))) (ascii ''tg_single_group_data.json'')
       = Some (json_dump sample_lib ((bot_data warm_world)\<lparr>conversation_context :=
            [\<lparr>role = User, content = ascii ''weather?''\<rparr>,
             \<lparr>role = Assistant, content = ascii ''Sunny.'' @ [10] @ ascii ''25C.''\<rparr>]\<rparr>))
   \<and> fs_read (fs (snd (handle_mention default_config sample_lib sample_env sample_update
                         locked_history_world))) (ascii ''docs/chat_history.txt'')
       = Some (utf8_encode history_header)
   \<and> fst (handle_mention default_config sample_lib sample_env sample_update locked_history_world)
       = Some (error_tip default_config)
   \<and> logged (snd (handle_mention default_config sample_lib sample_env sample_update
                     locked_history_world))
       = [Info_bot_username (ascii ''bot''),
          Debug_data_saved (ascii ''tg_single_group_data.json''),
          Error_mention_other OSError]"
proof -
  let ?create = "\<lambda>(m::pystr) (msgs::message list).
                   Response [Some (ascii ''Sunny.'' @ [10] @ ascii ''25C.'')]"
  have c: "client sample_env = Some ?create" by (simp add: sample_env_def)
  have p: "parse_mention (ascii ''@bot weather?'') (entities sample_update)
             (fst (ensure_bot_username sample_env warm_world)) = (True, ascii ''weather?'')"
    using warm_username(1) [of "client sample_env"] by (simp add: sample_update_parsed)
  have p': "parse_mention (ascii ''@bot weather?'') (entities sample_update)
             (fst (ensure_bot_username sample_env locked_history_world))
            = (True, ascii ''weather?'')"
    by (simp only: locked_username sample_update_parsed)
  have u: "logged (snd (ensure_bot_username sample_env warm_world))
           = [Info_bot_username (ascii ''bot'')]"
    using warm_username(2) [of "client sample_env"] by simp
  have trim: "int (length ([] @ [\<lparr>role = User, content = ascii ''weather?''\<rparr>,
                 \<lparr>role = Assistant, content = ascii ''Sunny.'' @ [10] @ ascii ''25C.''\<rparr>])) > 20 \<longleftrightarrow> False"
    by simp
  note warm = exchange_commit_order
         [OF sample_update_text(1) sample_update_text(2) p sample_update_text(3) c
             sample_reply, where lib = sample_lib,
          unfolded Let_def default_paths(1,2,4) warm_files u trim if_False append_Nil
            rotated_small to_linesep_posix]
  note locked = exchange_commit_order
         [OF sample_update_text(1) sample_update_text(2) p' sample_update_text(3) c
             sample_reply, where lib = sample_lib,
          unfolded Let_def default_paths(1,2,4) warm_files locked_username(2) trim if_False
            append_Nil rotated_small to_linesep_posix]
  have warm': "bot_data (snd (handle_mention default_config sample_lib sample_env sample_update warm_world))
         = (bot_data warm_world)\<lparr>conversation_context :=
              [\<lparr>role = User, content = ascii ''weather?''\<rparr>,
               \<lparr>role = Assistant, content = ascii ''Sunny.'' @ [10] @ ascii ''25C.''\<rparr>]\<rparr>
     \<and> fs_read (fs (snd (handle_mention default_config sample_lib sample_env sample_update
                           warm_world))) (ascii ''tg_single_group_data.json'')
         = Some (json_dump sample_lib ((bot_data warm_world)\<lparr>conversation_context :=
              [\<lparr>role = User, content = ascii ''weather?''\<rparr>,
               \<lparr>role = Assistant, content = ascii ''Sunny.'' @ [10] @ ascii ''25C.''\<rparr>]\<rparr>))
     \<and> fs_read (fs (snd (handle_mention default_config sample_lib sample_env sample_update
                           warm_world))) (ascii ''docs/chat_history.txt'')
         = Some (utf8_encode history_header
                 @ utf8_encode ([0x3010, 0x7528, 0x6237, 0x3011] @ ascii ''weather?'' @ [10]
                                @ [0x3010, 0x52A9, 0x624B, 0x3011] @ (ascii ''Sunny.'' @ [10] @ ascii ''25C.'') @ [10, 10]))
     \<and> fst (handle_mention default_config sample_lib sample_env sample_update warm_world)
         = Some (ascii ''Sunny.'' @ [10] @ ascii ''25C.'')
     \<and> logged (snd (handle_mention default_config sample_lib sample_env sample_update warm_world))
         = [Info_bot_username (ascii ''bot''),
            Debug_data_saved (ascii ''tg_single_group_data.json''),
            Info_mention_answered (ascii ''weather?'')]"
    using warm by (simp add: paths_differ rotated_small warm_files)
  have locked': "bot_data (snd (handle_mention default_config sample_lib sample_env sample_update
                         locked_history_world))
         = (bot_data warm_world)\<lparr>conversation_context :=
              [\<lparr>role = User, content = ascii ''weather?''\<rparr>,
               \<lparr>role = Assistant, content = ascii ''Sunny.'' @ [10] @ ascii ''25C.''\<rparr>]\<rparr>
     \<and> fs_read (fs (snd (handle_mention default_config sample_lib sample_env sample_update
                           locked_history_world))) (ascii ''tg_single_group_data.json'')
         = Some (json_dump sample_lib ((bot_data warm_world)\<lparr>conversation_context :=
              [\<lparr>role = User, content = ascii ''weather?''\<rparr>,
               \<lparr>role = Assistant, content = ascii ''Sunny.'' @ [10] @ ascii ''25C.''\<rparr>]\<rparr>))
     \<and> fs_read (fs (snd (handle_mention default_config sample_lib sample_env sample_update
                           locked_history_world))) (ascii ''docs/chat_history.txt'')
         = Some (utf8_encode history_header)
     \<and> fst (handle_mention default_config sample_lib sample_env sample_update locked_history_world)
         = Some (error_tip default_config)
     \<and> logged (snd (handle_mention default_config sample_lib sample_env sample_update
                       locked_history_world))
         = [Info_bot_username (ascii ''bot''),
            Debug_data_saved (ascii ''tg_single_group_data.json''),
            Error_mention_other OSError]"
    using locked by (simp add: paths_differ rotated_small warm_files)
  from warm' locked' c sample_reply [of "build_messages (bot_data warm_world) (ascii ''weather?'')"]
  show ?thesis by blast
qed

lemma crash_paths:
  "data_file crash_config = ascii ''tg_single_group_data.json''"
  "chat_history_file crash_config = ascii ''chat_history.txt''"
  "docs_dir crash_config = ascii ''docs''"
  "max_context_msg crash_config = 20"
  "empty_bot_data crash_config = empty_bot_data sample_config"
  by (simp_all add: crash_config_def sample_config_def default_config_def empty_bot_data_def)

lemma crashed_state:
  "(bot_data running_world)\<lparr>conversation_context :=
      update_context (max_context_msg crash_config) (ascii ''hi'') (ascii ''hello'')
        (conversation_context (bot_data running_world))\<rparr> = sample_state"
  by (simp add: running_world_def crash_config_def update_context_def empty_bot_data_def
        sample_config_def default_config_def sample_state_def)

lemma crashed_world_eq:
  "crashed_world =
     \<lparr>bot_data = sample_state, BOT_USERNAME = Some (ascii ''bot''),
      fs = \<lparr>files = [(ascii ''tg_single_group_data.json'', sample_state_doc),
                     (ascii ''chat_history.txt'', utf8_encode history_header)],
            readonly = [], linesep = [10]\<rparr>,
      logged = [Debug_data_saved (ascii ''tg_single_group_data.json'')]\<rparr>"
  unfolding crashed_world_def crashed_state
  by (simp add: running_world_def save_data_def fs_write_def log_add_def crash_paths
        sample_lib_sample)

lemma restarted_load:
  "load_data crash_config sample_lib restarted_world
   = Loaded \<lparr>bot_data = sample_state, BOT_USERNAME = None,
            fs = \<lparr>files = [(ascii ''tg_single_group_data.json'', sample_state_doc),
                           (ascii ''chat_history.txt'', utf8_encode history_header)],
                  readonly = [], linesep = [10]\<rparr>,
            logged = [Info_data_restored]\<rparr>"
  by (simp add: restarted_world_def crashed_world_eq load_data_def fs_read_def crash_paths
        sample_lib_sample log_add_def)

lemma restarted_reload:
  "load_all_docs crash_config sample_lib False
     \<lparr>bot_data = sample_state, BOT_USERNAME = None,
      fs = \<lparr>files = [(ascii ''tg_single_group_data.json'', sample_state_doc),
                     (ascii ''chat_history.txt'', utf8_encode history_header)],
            readonly = [], linesep = [10]\<rparr>,
      logged = [Info_data_restored]\<rparr>
   = (Inr None,
     \<lparr>bot_data = empty_bot_data sample_config, BOT_USERNAME = None,
      fs = \<lparr>files = [(ascii ''tg_single_group_data.json'', empty_state_doc),
                     (ascii ''chat_history.txt'', utf8_encode history_header)],
            readonly = [], linesep = [10]\<rparr>,
      logged = [Info_data_restored, Info_docs_loading (ascii ''docs''),
                Info_history_loaded 0 0,
                Debug_data_saved (ascii ''tg_single_group_data.json''),
                Info_load_result 0 0]\<rparr>)"
proof -
  let ?fs = "\<lparr>files = [(ascii ''tg_single_group_data.json'', sample_state_doc),
                       (ascii ''chat_history.txt'', utf8_encode history_header)],
              readonly = [], linesep = [10]\<rparr>"
  have d: "sample_state\<lparr>knowledge_base := [], conversation_context := []\<rparr>
           = empty_bot_data sample_config"
    "sample_state\<lparr>conversation_context := [], knowledge_base := []\<rparr>
           = empty_bot_data sample_config"
    by (simp_all add: sample_state_def sample_default)
  have h: "parse_history (py_readlines (universal_newlines history_header)) [] [] [] = []"
    by (simp add: history_header_def str_defs tag_user_def tag_assistant_def)
  have ne: "ascii ''chat_history.txt'' \<noteq> ascii ''tg_single_group_data.json''"
    "ascii ''tg_single_group_data.json'' \<noteq> ascii ''chat_history.txt''"
    by (simp_all add: ascii_def)
  have ld: "listdir ?fs (ascii ''docs'') = []"
    by (simp add: listdir_def List.map_filter_def entry_name_def dir_prefix_def ascii_def)
  have r: "read_text ?fs (ascii ''chat_history.txt'') = Inr (universal_newlines history_header)"
    by (simp add: read_text_def fs_read_def ascii_def history_header_def utf8_defs)
  show ?thesis
    by (simp add: load_all_docs_def Let_def log_add_def crash_paths ld
          load_history_def fs_exists_def fs_read_def ne r h trim_context_def d
          save_data_def fs_write_def sample_lib_empty)
qed

text \<open>
  The consequence the claim draws from the order fails. A process that stops between
  \<^verbatim>\<open>save_data\<close> and the log append leaves the exchange in the data file and not in
  the history file. The next start (\<^verbatim>\<open>main\<close>: \<^verbatim>\<open>load_data()\<close>, then
  \<^verbatim>\<open>load_all_docs()\<close>) restores the exchange from the data file and then rebuilds the
  context from the history file and saves it: the persisted exchange is gone from
  memory and from the data file.
\<close>

theorem exchange_crash_counterexample:
  "commit crash_config sample_lib (ascii ''hi'') (ascii ''hello'') running_world
     = (case history_append (ascii ''chat_history.txt'') (ascii ''hi'') (ascii ''hello'')
              (fs crashed_world) of
          (r, fs') \<Rightarrow> (r, crashed_world\<lparr>fs := fs'\<rparr>))
   \<and> conversation_context (bot_data crashed_world)
       = [\<lparr>role = User, content = ascii ''hi''\<rparr>, \<lparr>role = Assistant, content = ascii ''hello''\<rparr>]
   \<and> fs_read (fs crashed_world) (ascii ''tg_single_group_data.json'') = Some sample_state_doc
   \<and> json_load sample_lib sample_state_doc
       = Inr (Dict_state
           \<lparr>conversation_context =
              [\<lparr>role = User, content = ascii ''hi''\<rparr>,
               \<lparr>role = Assistant, content = ascii ''hello''\<rparr>],
            knowledge_base = [], custom_prompt = ascii ''Be brief.''\<rparr>)
   \<and> fs_read (fs crashed_world) (ascii ''chat_history.txt'') = Some (utf8_encode history_header)
   \<and> (\<exists>w1. load_data crash_config sample_lib restarted_world = Loaded w1
          \<and> conversation_context (bot_data w1)
              = [\<lparr>role = User, content = ascii ''hi''\<rparr>,
                 \<lparr>role = Assistant, content = ascii ''hello''\<rparr>]
          \<and> fst (load_all_docs crash_config sample_lib False w1) = Inr None
          \<and> conversation_context
               (bot_data (snd (load_all_docs crash_config sample_lib False w1))) = []
          \<and> fs_read (fs (snd (load_all_docs crash_config sample_lib False w1)))
               (ascii ''tg_single_group_data.json'') = Some empty_state_doc
          \<and> json_load sample_lib empty_state_doc
              = Inr (Dict_state
                  \<lparr>conversation_context = [], knowledge_base = [],
                   custom_prompt = ascii ''Be brief.''\<rparr>))"
proof -
  have c: "commit crash_config sample_lib (ascii ''hi'') (ascii ''hello'') running_world
     = (case history_append (ascii ''chat_history.txt'') (ascii ''hi'') (ascii ''hello'')
              (fs crashed_world) of
          (r, fs') \<Rightarrow> (r, crashed_world\<lparr>fs := fs'\<rparr>))"
    by (simp add: commit_def Let_def crashed_world_def crash_paths(2))
  have s: "conversation_context (bot_data crashed_world)
       = [\<lparr>role = User, content = ascii ''hi''\<rparr>, \<lparr>role = Assistant, content = ascii ''hello''\<rparr>]"
    "fs_read (fs crashed_world) (ascii ''tg_single_group_data.json'') = Some sample_state_doc"
    "fs_read (fs crashed_world) (ascii ''chat_history.txt'') = Some (utf8_encode history_header)"
    by (simp_all add: crashed_world_eq sample_state_def fs_read_def ascii_def)
  have l: "json_load sample_lib sample_state_doc
       = Inr (Dict_state
           \<lparr>conversation_context =
              [\<lparr>role = User, content = ascii ''hi''\<rparr>,
               \<lparr>role = Assistant, content = ascii ''hello''\<rparr>],
            knowledge_base = [], custom_prompt = ascii ''Be brief.''\<rparr>)"
    "json_load sample_lib empty_state_doc
              = Inr (Dict_state
                  \<lparr>conversation_context = [], knowledge_base = [],
                   custom_prompt = ascii ''Be brief.''\<rparr>)"
    using sample_lib_sample(2) sample_lib_empty(2)
    by (simp_all add: sample_state_def sample_default)
  let ?w1 = "\<lparr>bot_data = sample_state, BOT_USERNAME = None,
            fs = \<lparr>files = [(ascii ''tg_single_group_data.json'', sample_state_doc),
                           (ascii ''chat_history.txt'', utf8_encode history_header)],
                  readonly = [], linesep = [10]\<rparr>,
            logged = [Info_data_restored]\<rparr>"
  have r1: "conversation_context (bot_data ?w1)
              = [\<lparr>role = User, content = ascii ''hi''\<rparr>,
                 \<lparr>role = Assistant, content = ascii ''hello''\<rparr>]"
    by (simp add: sample_state_def)
  have r2: "conversation_context
               (bot_data (snd (load_all_docs crash_config sample_lib False ?w1))) = []"
    "fs_read (fs (snd (load_all_docs crash_config sample_lib False ?w1)))
               (ascii ''tg_single_group_data.json'') = Some empty_state_doc"
    unfolding restarted_reload by (simp_all add: sample_default fs_read_def)
  have r3: "fst (load_all_docs crash_config sample_lib False ?w1) = Inr None"
    unfolding restarted_reload by simp
  from restarted_load r1 r2 r3 l(2)
  have "\<exists>w1. load_data crash_config sample_lib restarted_world = Loaded w1
          \<and> conversation_context (bot_data w1)
              = [\<lparr>role = User, content = ascii ''hi''\<rparr>,
                 \<lparr>role = Assistant, content = ascii ''hello''\<rparr>]
          \<and> fst (load_all_docs crash_config sample_lib False w1) = Inr None
          \<and> conversation_context
               (bot_data (snd (load_all_docs crash_config sample_lib False w1))) = []
          \<and> fs_read (fs (snd (load_all_docs crash_config sample_lib False w1)))
               (ascii ''tg_single_group_data.json'') = Some empty_state_doc
          \<and> json_load sample_lib empty_state_doc
              = Inr (Dict_state
                  \<lparr>conversation_context = [], knowledge_base = [],
                   custom_prompt = ascii ''Be brief.''\<rparr>)"
    by blast
  with c s l(1) show ?thesis by blast
qed

subsection \<open>A failed model call\<close>

lemma answer_call_fails:
  assumes "client env = Some create"
    and "call_model create (model cfg) (build_messages (bot_data w) q) = Inl e"
  shows "answer cfg lib env q w = failure_reply cfg e w"
  using assms by (simp add: answer_def)

lemma call_model_fails:
  assumes "create (model cfg) (build_messages (bot_data w) q) = Raises e
         \<or> create (model cfg) (build_messages (bot_data w) q) = Response [] \<and> e = IndexError
         \<or> (\<exists>rest. create (model cfg) (build_messages (bot_data w) q) = Response (None # rest))
            \<and> e = AttributeError"
  shows "call_model create (model cfg) (build_messages (bot_data w) q) = Inl e"
  using assms by (auto simp: call_model_def response_content_def)

lemma handle_mention_call_fails:
  assumes "message_text upd = Some text" and "text \<noteq> []"
    and "parse_mention text (entities upd) (fst (ensure_bot_username env w)) = (True, q)"
    and "q \<noteq> []"
    and "client env = Some create"
    and "create (model cfg) (build_messages (bot_data w) q) = Raises e
         \<or> create (model cfg) (build_messages (bot_data w) q) = Response [] \<and> e = IndexError
         \<or> (\<exists>rest. create (model cfg) (build_messages (bot_data w) q) = Response (None # rest))
            \<and> e = AttributeError"
  shows "fst (handle_mention cfg lib env upd w)
           = Some (case e of
                     OpenAIError msg \<Rightarrow>
                       [0x274C] @ ascii '' '' @ [0x56DE, 0x7B54, 0x5931, 0x8D25, 0xFF1A] @ msg
                   | _ \<Rightarrow> error_tip cfg)
       \<and> bot_data (snd (handle_mention cfg lib env upd w)) = bot_data w
       \<and> fs (snd (handle_mention cfg lib env upd w)) = fs w
       \<and> logged (snd (handle_mention cfg lib env upd w))
           = logged (snd (ensure_bot_username env w))
             @ [case e of OpenAIError msg \<Rightarrow> Error_mention_openai msg
                        | _ \<Rightarrow> Error_mention_other e]"
proof -
  let ?w1 = "snd (ensure_bot_username env w)"
  have "call_model create (model cfg) (build_messages (bot_data ?w1) q) = Inl e"
  proof -
    have "call_model create (model cfg) (build_messages (bot_data w) q) = Inl e"
      using assms(6) by (rule call_model_fails)
    then show ?thesis by (simp add: ensure_bot_username_frame)
  qed
  then have "handle_mention cfg lib env upd w = failure_reply cfg e ?w1"
    using handle_mention_answers [OF assms(1-4)] answer_call_fails [OF assms(5)] by simp
  then show ?thesis
    by (simp add: failure_reply_frame ensure_bot_username_frame)
       (simp add: failure_reply_def log_add_def answer_failed_prefix_def split: exn.splits)
qed

text \<open>
  Claim C8, as the code has it. When a message addressed to the bot reaches the model
  call and the call raises, or its response has no choices, or the content of its first
  choice is null, the handler sends exactly one reply and logs exactly one error, and
  neither \<^verbatim>\<open>bot_data\<close> (context, corpus, prompt) nor any file changes. The reply
  carries the cause, \<^verbatim>\<open>str(e)\<close>, when the exception is an \<^verbatim>\<open>OpenAIError\<close>; for any
  other exception it is the fixed \<^verbatim>\<open>error_tip\<close> of the configuration, and the cause
  goes to the log only.
\<close>

theorem model_failure_no_mutation:
  assumes "message_text upd = Some text" and "text \<noteq> []"
    and "parse_mention text (entities upd) (fst (ensure_bot_username env w)) = (True, q)"
    and "q \<noteq> []"
    and "client env = Some create"
    and "create (model cfg) (build_messages (bot_data w) q) = Raises e
         \<or> create (model cfg) (build_messages (bot_data w) q) = Response [] \<and> e = IndexError
         \<or> (\<exists>rest. create (model cfg) (build_messages (bot_data w) q) = Response (None # rest))
            \<and> e = AttributeError"
  shows "fst (handle_mention cfg lib env upd w)
           = Some (case e of
                     OpenAIError msg \<Rightarrow>
                       [0x274C] @ ascii '' '' @ [0x56DE, 0x7B54, 0x5931, 0x8D25, 0xFF1A] @ msg
                   | _ \<Rightarrow> error_tip cfg)
       \<and> bot_data (snd (handle_mention cfg lib env upd w)) = bot_data w
       \<and> fs (snd (handle_mention cfg lib env upd w)) = fs w
       \<and> logged (snd (handle_mention cfg lib env upd w))
           = logged (snd (ensure_bot_username env w))
             @ [case e of OpenAIError msg \<Rightarrow> Error_mention_openai msg
                        | _ \<Rightarrow> Error_mention_other e]"
  using assms by (rule handle_mention_call_fails)

theorem model_failure_no_mutation_witness:
  "client quota_env = Some (\<lambda>m msgs. Raises (OpenAIError (ascii ''quota'')))
   \<and> fst (handle_mention default_config sample_lib quota_env sample_update warm_world)
       = Some ([0x274C] @ ascii '' '' @ [0x56DE, 0x7B54, 0x5931, 0x8D25, 0xFF1A] @ ascii ''quota'')
   \<and> bot_data (snd (handle_mention default_config sample_lib quota_env sample_update warm_world))
       = bot_data warm_world
   \<and> fs (snd (handle_mention default_config sample_lib quota_env sample_update warm_world))
       = fs warm_world
   \<and> logged (snd (handle_mention default_config sample_lib quota_env sample_update warm_world))
       = [Info_bot_username (ascii ''bot''), Error_mention_openai (ascii ''quota'')]
   \<and> client null_content_env = Some (\<lambda>m msgs. Response [None])
   \<and> fst (handle_mention default_config sample_lib null_content_env sample_update warm_world)
       = Some (error_tip default_config)
   \<and> bot_data (snd (handle_mention default_config sample_lib null_content_env sample_update
                       warm_world))
       = bot_data warm_world
   \<and> fs (snd (handle_mention default_config sample_lib null_content_env sample_update
                 warm_world))
       = fs warm_world
   \<and> logged (snd (handle_mention default_config sample_lib null_content_env sample_update
                     warm_world))
       = [Info_bot_username (ascii ''bot''), Error_mention_other AttributeError]"
proof -
  let ?raises = "\<lambda>(m::pystr) (msgs::message list). Raises (OpenAIError (ascii ''quota''))"
  let ?null = "\<lambda>(m::pystr) (msgs::message list). Response [None]"
  have c: "client quota_env = Some ?raises"
    and c': "client null_content_env = Some ?null"
    by (simp_all add: quota_env_def null_content_env_def)
  have f: "?raises (model default_config)
             (build_messages (bot_data warm_world) (ascii ''weather?''))
           = Raises (OpenAIError (ascii ''quota''))
         \<or> ?raises (model default_config)
             (build_messages (bot_data warm_world) (ascii ''weather?'')) = Response []
           \<and> OpenAIError (ascii ''quota'') = IndexError
         \<or> (\<exists>rest. ?raises (model default_config)
               (build_messages (bot_data warm_world) (ascii ''weather?''))
             = Response (None # rest))
           \<and> OpenAIError (ascii ''quota'') = AttributeError"
    by simp
  have f': "?null (model default_config)
             (build_messages (bot_data warm_world) (ascii ''weather?''))
           = Raises AttributeError
         \<or> ?null (model default_config)
             (build_messages (bot_data warm_world) (ascii ''weather?'')) = Response []
           \<and> AttributeError = IndexError
         \<or> (\<exists>rest. ?null (model default_config)
               (build_messages (bot_data warm_world) (ascii ''weather?''))
             = Response (None # rest))
           \<and> AttributeError = AttributeError"
    by simp
  have p: "parse_mention (ascii ''@bot weather?'') (entities sample_update)
             (fst (ensure_bot_username quota_env warm_world)) = (True, ascii ''weather?'')"
    and p': "parse_mention (ascii ''@bot weather?'') (entities sample_update)
             (fst (ensure_bot_username null_content_env warm_world))
             = (True, ascii ''weather?'')"
    by (simp_all only: quota_env_def null_content_env_def warm_username sample_update_parsed)
  have u: "logged (snd (ensure_bot_username quota_env warm_world))
           = [Info_bot_username (ascii ''bot'')]"
    and u': "logged (snd (ensure_bot_username null_content_env warm_world))
           = [Info_bot_username (ascii ''bot'')]"
    by (simp_all only: quota_env_def null_content_env_def warm_username)
  note quota = model_failure_no_mutation
         [where create = "?raises" and cfg = default_config and w = warm_world
            and q = "ascii ''weather?''" and e = "OpenAIError (ascii ''quota'')"
            and lib = sample_lib,
          OF sample_update_text(1) sample_update_text(2) p sample_update_text(3) c f,
          unfolded u exn.case]
  note null = model_failure_no_mutation
         [where create = "?null" and cfg = default_config and w = warm_world
            and q = "ascii ''weather?''" and e = AttributeError and lib = sample_lib,
          OF sample_update_text(1) sample_update_text(2) p' sample_update_text(3) c' f',
          unfolded u' exn.case]
  from quota null c c' show ?thesis by simp
qed

lemma blank_reply:
  "call_model (\<lambda>m msgs. Response [Some (ascii '' '' @ [10])]) (model default_config) msgs
   = Inr []"
  by (simp add: call_model_def response_content_def str_defs)

text \<open>
  The claim as stated fails for a malformed response. A response whose content is null
  and a response without choices fail for different reasons, and the user gets the
  same fixed text for both, without the cause. A response whose content is blank does
  not fail at the model call at all: the handler takes it for an answer, and the
  context and the history file are written with an empty reply.
\<close>

theorem model_failure_counterexample:
  "fst (handle_mention default_config sample_lib null_content_env sample_update warm_world)
     = Some (error_tip default_config)
   \<and> logged (snd (handle_mention default_config sample_lib null_content_env sample_update
                    warm_world))
     = [Info_bot_username (ascii ''bot''), Error_mention_other AttributeError]
   \<and> fst (handle_mention default_config sample_lib no_choices_env sample_update warm_world)
     = Some (error_tip default_config)
   \<and> logged (snd (handle_mention default_config sample_lib no_choices_env sample_update
                    warm_world))
     = [Info_bot_username (ascii ''bot''), Error_mention_other IndexError]
   \<and> conversation_context (bot_data warm_world) = []
   \<and> conversation_context
       (bot_data (snd (handle_mention default_config sample_lib blank_env sample_update
                         warm_world)))
     = [\<lparr>role = User, content = ascii ''weather?''\<rparr>, \<lparr>role = Assistant, content = []\<rparr>]
   \<and> fs_read (fs warm_world) (ascii ''docs/chat_history.txt'')
     = Some (utf8_encode history_header)
   \<and> fs_read (fs (snd (handle_mention default_config sample_lib blank_env sample_update
                         warm_world))) (ascii ''docs/chat_history.txt'')
     = Some (utf8_encode history_header
             @ utf8_encode ([0x3010, 0x7528, 0x6237, 0x3011] @ ascii ''weather?'' @ [10]
                            @ [0x3010, 0x52A9, 0x624B, 0x3011] @ [] @ [10, 10]))"
proof -
  let ?null = "\<lambda>(m::pystr) (msgs::message list). Response [None]"
  let ?none = "\<lambda>(m::pystr) (msgs::message list). Response []"
  let ?blank = "\<lambda>(m::pystr) (msgs::message list). Response [Some (ascii '' '' @ [10])]"
  have c1: "client null_content_env = Some ?null"
    and c2: "client no_choices_env = Some ?none"
    and c3: "client blank_env = Some ?blank"
    by (simp_all add: null_content_env_def no_choices_env_def blank_env_def)
  have f1: "?null (model default_config)
             (build_messages (bot_data warm_world) (ascii ''weather?''))
           = Raises AttributeError
         \<or> ?null (model default_config)
             (build_messages (bot_data warm_world) (ascii ''weather?'')) = Response []
           \<and> AttributeError = IndexError
         \<or> (\<exists>rest. ?null (model default_config)
               (build_messages (bot_data warm_world) (ascii ''weather?''))
             = Response (None # rest))
           \<and> AttributeError = AttributeError"
    by simp
  have f2: "?none (model default_config)
             (build_messages (bot_data warm_world) (ascii ''weather?''))
           = Raises IndexError
         \<or> ?none (model default_config)
             (build_messages (bot_data warm_world) (ascii ''weather?'')) = Response []
           \<and> IndexError = IndexError
         \<or> (\<exists>rest. ?none (model default_config)
               (build_messages (bot_data warm_world) (ascii ''weather?''))
             = Response (None # rest))
           \<and> IndexError = AttributeError"
    by simp
  have p1: "parse_mention (ascii ''@bot weather?'') (entities sample_update)
             (fst (ensure_bot_username null_content_env warm_world)) = (True, ascii ''weather?'')"
    and p2: "parse_mention (ascii ''@bot weather?'') (entities sample_update)
             (fst (ensure_bot_username no_choices_env warm_world)) = (True, ascii ''weather?'')"
    and p3: "parse_mention (ascii ''@bot weather?'') (entities sample_update)
             (fst (ensure_bot_username blank_env warm_world)) = (True, ascii ''weather?'')"
    by (simp_all only: null_content_env_def no_choices_env_def blank_env_def warm_username
          sample_update_parsed)
  have u1: "logged (snd (ensure_bot_username null_content_env warm_world))
           = [Info_bot_username (ascii ''bot'')]"
    and u2: "logged (snd (ensure_bot_username no_choices_env warm_world))
           = [Info_bot_username (ascii ''bot'')]"
    by (simp_all only: null_content_env_def no_choices_env_def warm_username)
  note null = handle_mention_call_fails
         [where create = "?null" and cfg = default_config and w = warm_world
            and q = "ascii ''weather?''" and e = AttributeError and lib = sample_lib,
          OF sample_update_text(1) sample_update_text(2) p1 sample_update_text(3) c1 f1,
          unfolded u1 exn.case]
  note none = handle_mention_call_fails
         [where create = "?none" and cfg = default_config and w = warm_world
            and q = "ascii ''weather?''" and e = IndexError and lib = sample_lib,
          OF sample_update_text(1) sample_update_text(2) p2 sample_update_text(3) c2 f2,
          unfolded u2 exn.case]
  have trim: "int (length ([] @ [\<lparr>role = User, content = ascii ''weather?''\<rparr>,
                 \<lparr>role = Assistant, content = []\<rparr>])) > 20 \<longleftrightarrow> False"
    by simp
  note blank = handle_mention_exchange
         [OF sample_update_text(1) sample_update_text(2) p3 sample_update_text(3) c3
             blank_reply, where lib = sample_lib,
          unfolded Let_def default_paths(1,2,4) warm_files trim if_False append_Nil
            rotated_small to_linesep_posix]
  have blank': "conversation_context
       (bot_data (snd (handle_mention default_config sample_lib blank_env sample_update
                         warm_world)))
     = [\<lparr>role = User, content = ascii ''weather?''\<rparr>, \<lparr>role = Assistant, content = []\<rparr>]
   \<and> fs_read (fs (snd (handle_mention default_config sample_lib blank_env sample_update
                         warm_world))) (ascii ''docs/chat_history.txt'')
     = Some (utf8_encode history_header
             @ utf8_encode ([0x3010, 0x7528, 0x6237, 0x3011] @ ascii ''weather?'' @ [10]
                            @ [0x3010, 0x52A9, 0x624B, 0x3011] @ [] @ [10, 10]))"
    using blank by (simp add: paths_differ rotated_small warm_files)
  from null none blank' warm_files(1,9) show ?thesis by simp
qed

section \<open>Several mentions of the bot\<close>




lemma py_isspace_lower [simp]: "py_isspace (lower_char c) = py_isspace c"
  by (auto simp: py_isspace_def lower_char_def)









end
